theory Spec2Isabelle
  imports Main
begin

section \<open>JavaScript values\<close>

text \<open>
  The connection service handles untyped provider responses (\<open>Record<string, any>\<close>).
  A value is one of the JSON scalars, a \<open>Date\<close> object, or some other object, of which
  only its string conversion matters here. A number is \<open>NaN\<close>, an integer (\<open>JNum\<close>,
  with \<open>-0\<close> as 0), or a number that is not an integer, that is a fraction or an infinity
  (\<open>JFloat\<close>), which is never zero and of which only the string conversion matters
  here. A string is a sequence of code units below 256, one \<open>char\<close> each.
\<close>

datatype Date = Date int | InvalidDate

datatype jsval =
    JUndefined
  | JNull
  | JBool bool
  | JNum int
  | JFloat string
  | JNaN
  | JStr string
  | JDate Date
  | JObj string

text \<open>ToBoolean: what \<open>if (v)\<close> and \<open>!v\<close> test.\<close>

fun truthy :: "jsval \<Rightarrow> bool" where
  "truthy JUndefined = False"
| "truthy JNull = False"
| "truthy (JBool b) = b"
| "truthy (JNum n) = (n \<noteq> 0)"
| "truthy (JFloat s) = True"
| "truthy JNaN = False"
| "truthy (JStr s) = (s \<noteq> [])"
| "truthy (JDate d) = True"
| "truthy (JObj s) = True"

text \<open>An object literal is an association list; reading a property that is not there
  gives \<open>undefined\<close>.\<close>

type_synonym rawobj = "(string \<times> jsval) list"

definition getProp :: "rawobj \<Rightarrow> string \<Rightarrow> jsval" where
  "getProp obj k = (case map_of obj k of None \<Rightarrow> JUndefined | Some v \<Rightarrow> v)"

text \<open>\<open>new Date(t)\<close> for a number \<open>t\<close> (\<open>None\<close> is \<open>NaN\<close>): a time value outside
  the range of \<open>TimeClip\<close> gives an invalid date.\<close>

definition newDate :: "int option \<Rightarrow> Date" where
  "newDate t = (case t of
       None \<Rightarrow> InvalidDate
     | Some n \<Rightarrow> if \<bar>n\<bar> \<le> 8640000000000000 then Date n else InvalidDate)"

text \<open>\<open>Number.parseInt(v, 10)\<close>: the argument is converted to a string, leading white
  space and one sign are skipped, and the longest run of decimal digits is read; no digit
  gives \<open>NaN\<close>. The white space below code unit 256 is tab, line feed, vertical tab,
  form feed, carriage return, space and the no-break space.\<close>

definition is_ws :: "char \<Rightarrow> bool" where
  "is_ws c = (c \<in> set [CHR '' '', CHR 0x09, CHR 0x0A, CHR 0x0B, CHR 0x0C, CHR 0x0D, CHR 0xA0])"

definition is_digit :: "char \<Rightarrow> bool" where
  "is_digit c = (c \<in> set ''0123456789'')"

definition digit_val :: "char \<Rightarrow> int" where
  "digit_val c = int (length (takeWhile (\<lambda>d. d \<noteq> c) ''0123456789''))"

definition parseInt_string :: "string \<Rightarrow> int option" where
  "parseInt_string s =
     (let s1 = dropWhile is_ws s;
          sgn_rest = (case s1 of
                        c # r \<Rightarrow> if c = CHR ''-'' then (- 1, r)
                                 else if c = CHR ''+'' then (1, r) else (1, s1)
                      | [] \<Rightarrow> (1, s1));
          ds = takeWhile is_digit (snd sgn_rest)
      in if ds = [] then None
         else Some (fst sgn_rest * foldl (\<lambda>a c. 10 * a + digit_val c) 0 ds))"

text \<open>The string conversion of an integer below \<open>10^21\<close> in magnitude is its decimal
  numeral, which reads back as the integer. From \<open>10^21\<close> on it is in exponent form
  with the shortest digits that identify the double: that conversion is a parameter,
  \<open>toString\<close>, of the model. The other values convert to \<open>undefined\<close>, \<open>null\<close>,
  \<open>true\<close>, \<open>false\<close>, \<open>NaN\<close>, and the text of a date, which starts with a letter.\<close>

fun parseInt :: "(int \<Rightarrow> string) \<Rightarrow> jsval \<Rightarrow> int option" where
  "parseInt toString (JStr s) = parseInt_string s"
| "parseInt toString (JNum n) =
     (if \<bar>n\<bar> < 10 ^ 21 then Some n else parseInt_string (toString n))"
| "parseInt toString (JFloat s) = parseInt_string s"
| "parseInt toString (JObj s) = parseInt_string s"
| "parseInt toString JUndefined = None"
| "parseInt toString JNull = None"
| "parseInt toString (JBool b) = None"
| "parseInt toString JNaN = None"
| "parseInt toString (JDate d) = None"

section \<open>Credentials and errors\<close>

text \<open>Modelled from the spec: the \<open>AuthModes\<close> enum and the credential types of
  \<open>models/Auth.ts\<close>, which is not among the sources; the spec lists the four variants
  OAuth2, OAuth1, API key and basic auth. The fields of the two OAuth variants are the
  ones \<open>parseRawCredentials\<close> fills in.\<close>

datatype AuthModes = OAuth1 | OAuth2 | Basic | ApiKey

record OAuth2Credentials =
  access_token :: jsval
  refresh_token :: jsval
  expires_at :: "Date option"
  raw :: rawobj

record OAuth1Credentials =
  oauth_token :: jsval
  oauth_token_secret :: jsval
  raw1 :: rawobj

datatype AuthCredentials =
    CredOAuth2 OAuth2Credentials
  | CredOAuth1 OAuth1Credentials
  | CredApiKey string
  | CredBasic string string

text \<open>\<open>new NangoError(type, payload)\<close>: the error keeps its type string and payload.\<close>

datatype NangoError = NangoError string rawobj

text \<open>The helpers of \<open>utils/utils.ts\<close> and the JSON printer that the parser calls are
  not among the sources: \<open>parseTokenExpirationDate\<close> and \<open>JSON.stringify(_, undefined, 2)\<close>
  are parameters of the model, and so is the string conversion of the integers from
  \<open>10^21\<close> on.\<close>

record helpers =
  parseTokenExpirationDate :: "jsval \<Rightarrow> Date"
  JSON_stringify :: "rawobj \<Rightarrow> string"
  Number_toString :: "int \<Rightarrow> string"

section \<open>parseRawCredentials\<close>

text \<open>\<open>now\<close> is the reading of \<open>Date.now()\<close>, in milliseconds: a time value, at most
  \<open>8.64 * 10^15\<close> in magnitude. For such a reading the integer arithmetic below gives
  the date that the double arithmetic of \<open>Date.now() + Number.parseInt(...) * 1000\<close>
  gives: a sum within the range of dates is exact, and whenever the integer read, the
  product or the sum is rounded, the sum is beyond \<open>2^53\<close> in magnitude, where both
  give an invalid date.\<close>

definition parseRawCredentials ::
  "helpers \<Rightarrow> int \<Rightarrow> rawobj \<Rightarrow> AuthModes \<Rightarrow> NangoError + AuthCredentials" where
  "parseRawCredentials h now rawCreds authMode =
     (case authMode of
        OAuth2 \<Rightarrow>
          if \<not> truthy (getProp rawCreds ''access_token'')
          then Inl (NangoError ''incomplete_raw_credentials'' [])
          else
            let expiresAt =
                  (if truthy (getProp rawCreds ''expires_at'')
                   then Some (parseTokenExpirationDate h (getProp rawCreds ''expires_at''))
                   else if truthy (getProp rawCreds ''expires_in'')
                   then Some (newDate (case parseInt (Number_toString h) (getProp rawCreds ''expires_in'') of
                                         None \<Rightarrow> None
                                       | Some n \<Rightarrow> Some (now + n * 1000)))
                   else None)
            in Inr (CredOAuth2 \<lparr>access_token = getProp rawCreds ''access_token'',
                                refresh_token = getProp rawCreds ''refresh_token'',
                                expires_at = expiresAt,
                                raw = rawCreds\<rparr>)
      | OAuth1 \<Rightarrow>
          if \<not> truthy (getProp rawCreds ''oauth_token'')
             \<or> \<not> truthy (getProp rawCreds ''oauth_token_secret'')
          then Inl (NangoError ''incomplete_raw_credentials'' [])
          else Inr (CredOAuth1 \<lparr>oauth_token = getProp rawCreds ''oauth_token'',
                                oauth_token_secret = getProp rawCreds ''oauth_token_secret'',
                                raw1 = rawCreds\<rparr>)
      | _ \<Rightarrow>
          Inl (NangoError
                 (''Cannot parse credentials, unknown credentials type: ''
                    @ JSON_stringify h rawCreds) []))"

text \<open>The spec's wording of the parser's failure condition and of the expiry it
  computes, where "absent" and "present" speak of the field being in the raw object.\<close>

definition present :: "rawobj \<Rightarrow> string \<Rightarrow> bool" where
  "present obj k = (map_of obj k \<noteq> None)"

definition spec_incomplete :: "rawobj \<Rightarrow> AuthModes \<Rightarrow> bool" where
  "spec_incomplete rawCreds authMode =
     (case authMode of
        OAuth2 \<Rightarrow> \<not> present rawCreds ''access_token''
      | OAuth1 \<Rightarrow> \<not> (present rawCreds ''oauth_token'' \<and> present rawCreds ''oauth_token_secret'')
      | _ \<Rightarrow> False)"

definition spec_expires_at :: "helpers \<Rightarrow> int \<Rightarrow> rawobj \<Rightarrow> Date option" where
  "spec_expires_at h now rawCreds =
     (if present rawCreds ''expires_at''
      then Some (parseTokenExpirationDate h (getProp rawCreds ''expires_at''))
      else if present rawCreds ''expires_in''
      then Some (newDate (case parseInt (Number_toString h) (getProp rawCreds ''expires_in'') of
                            None \<Rightarrow> None
                          | Some n \<Rightarrow> Some (now + n * 1000)))
      else None)"

definition expiry_of :: "NangoError + AuthCredentials \<Rightarrow> Date option" where
  "expiry_of r = (case r of Inr (CredOAuth2 c) \<Rightarrow> expires_at c | _ \<Rightarrow> None)"

section \<open>The connection store\<close>

text \<open>Modelled from the spec: the \<open>_nango_connections\<close> table behind the query builder,
  and the credential codec (\<open>encryptionManager\<close>), neither among the sources. The codec is
  symmetric (decrypting an encrypted connection gives it back), so the table is kept as
  the list of its decrypted rows; a \<open>where\<close> clause selects the rows that agree on the
  given columns; an insert with \<open>onConflict(...).merge()\<close> overwrites the inserted
  columns of the conflicting row (last write wins) and otherwise adds a row with a
  fresh \<open>id\<close>.\<close>

type_synonym cfg = "(string \<times> string) list"

record Connection =
  id_col :: nat
  connection_id :: string
  provider_config_key :: string
  environment_id :: int
  credentials :: AuthCredentials
  connection_config :: cfg
  metadata :: cfg

datatype effect =
    AnalyticsTrack string int string
  | SyncInitiate nat
  | DeleteSyncSchedule Connection
  | DbDelete string string int

record store =
  rows :: "Connection list"
  next_id :: nat
  effects :: "effect list"

text \<open>The collaborators the store operations call: the environment service, the
  schedule service (which may throw) and the sync client (which may be missing).\<close>

record collab =
  getEnvironmentName :: "int \<Rightarrow> jsval"
  deleteSyncScheduleForConnection :: "Connection \<Rightarrow> NangoError option"
  syncClient :: bool

definition matches :: "string \<Rightarrow> string \<Rightarrow> int \<Rightarrow> Connection \<Rightarrow> bool" where
  "matches cid pck env r =
     (connection_id r = cid \<and> provider_config_key r = pck \<and> environment_id r = env)"

definition upsertConnection ::
  "string \<Rightarrow> string \<Rightarrow> string \<Rightarrow> AuthCredentials \<Rightarrow> cfg \<Rightarrow> int \<Rightarrow> int \<Rightarrow> cfg \<Rightarrow> store
     \<Rightarrow> nat list \<times> store" where
  "upsertConnection cid pck provider parsedRawCredentials connectionConfig env accountId md s =
     (let track = effects s @ [AnalyticsTrack ''server:connection_upserted'' accountId provider]
      in case filter (matches cid pck env) (rows s) of
           [] \<Rightarrow>
             ([next_id s],
              s\<lparr>rows := rows s @ [\<lparr>id_col = next_id s, connection_id = cid,
                                     provider_config_key = pck, environment_id = env,
                                     credentials = parsedRawCredentials,
                                     connection_config = connectionConfig, metadata = md\<rparr>],
                next_id := Suc (next_id s), effects := track\<rparr>)
         | r # _ \<Rightarrow>
             ([id_col r],
              s\<lparr>rows := map (\<lambda>x. if matches cid pck env x
                                   then x\<lparr>credentials := parsedRawCredentials,
                                          connection_config := connectionConfig,
                                          metadata := md\<rparr>
                                   else x) (rows s),
                effects := track\<rparr>))"

definition upsertApiConnection ::
  "string \<Rightarrow> string \<Rightarrow> string \<Rightarrow> AuthCredentials \<Rightarrow> cfg \<Rightarrow> int \<Rightarrow> int \<Rightarrow> store
     \<Rightarrow> nat list \<times> store" where
  "upsertApiConnection cid pck provider creds connectionConfig env accountId s =
     (let track = effects s @ [AnalyticsTrack ''server:connection_upserted'' accountId provider]
      in case filter (matches cid pck env) (rows s) of
           [] \<Rightarrow>
             ([next_id s],
              s\<lparr>rows := rows s @ [\<lparr>id_col = next_id s, connection_id = cid,
                                     provider_config_key = pck, environment_id = env,
                                     credentials = creds,
                                     connection_config = connectionConfig, metadata = []\<rparr>],
                next_id := Suc (next_id s), effects := track\<rparr>)
         | r # _ \<Rightarrow>
             ([id_col r],
              s\<lparr>rows := map (\<lambda>x. if matches cid pck env x
                                   then x\<lparr>credentials := creds,
                                          connection_config := connectionConfig\<rparr>
                                   else x) (rows s),
                effects := track\<rparr>))"

text \<open>\<open>ImportedCredentials\<close>: OAuth credentials that may carry a connection
  configuration and metadata (a missing one is the empty mapping).\<close>

record ImportedCredentials =
  imported :: AuthCredentials
  imported_config :: cfg
  imported_metadata :: cfg

text \<open>\<open>syncClient?.initiate(importedConnection[0].id)\<close>; the upsert always returns
  one id.\<close>

definition initiateSync :: "collab \<Rightarrow> nat list \<Rightarrow> store \<Rightarrow> store" where
  "initiateSync co ids s =
     (case ids of
        i # _ \<Rightarrow> if syncClient co then s\<lparr>effects := effects s @ [SyncInitiate i]\<rparr> else s
      | [] \<Rightarrow> s)"

definition importOAuthConnection ::
  "collab \<Rightarrow> string \<Rightarrow> string \<Rightarrow> string \<Rightarrow> int \<Rightarrow> int \<Rightarrow> ImportedCredentials \<Rightarrow> store
     \<Rightarrow> (NangoError + nat list) \<times> store" where
  "importOAuthConnection co cid pck provider env accountId parsedRawCredentials s =
     (case upsertConnection cid pck provider (imported parsedRawCredentials)
             (imported_config parsedRawCredentials) env accountId
             (imported_metadata parsedRawCredentials) s of
        (importedConnection, s1) \<Rightarrow> (Inr importedConnection, initiateSync co importedConnection s1))"

definition checkIfConnectionExists :: "string \<Rightarrow> string \<Rightarrow> int \<Rightarrow> store \<Rightarrow> bool" where
  "checkIfConnectionExists cid pck env s = (filter (matches cid pck env) (rows s) \<noteq> [])"

definition importApiAuthConnection ::
  "collab \<Rightarrow> string \<Rightarrow> string \<Rightarrow> string \<Rightarrow> int \<Rightarrow> int \<Rightarrow> AuthCredentials \<Rightarrow> store
     \<Rightarrow> (NangoError + nat list) \<times> store" where
  "importApiAuthConnection co cid pck provider env accountId creds s =
     (if checkIfConnectionExists cid pck env s
      then (Inl (NangoError ''connection_already_exists'' []), s)
      else case upsertApiConnection cid pck provider creds [] env accountId s of
             (importedConnection, s1) \<Rightarrow>
               (Inr importedConnection, initiateSync co importedConnection s1))"

definition getConnection ::
  "helpers \<Rightarrow> collab \<Rightarrow> string \<Rightarrow> string \<Rightarrow> int \<Rightarrow> Connection list \<Rightarrow> NangoError + Connection" where
  "getConnection h co cid pck env table =
     (if cid = [] then Inl (NangoError ''missing_connection'' [])
      else if pck = [] then Inl (NangoError ''missing_provider_config'' [])
      else if env = 0 then Inl (NangoError ''missing_environment'' [])
      else case filter (matches cid pck env) table of
             [] \<Rightarrow>
               Inl (NangoError ''unknown_connection''
                      [(''connectionId'', JStr cid), (''providerConfigKey'', JStr pck),
                       (''environmentName'', getEnvironmentName co env)])
           | storedConnection # _ \<Rightarrow>
               Inr (case credentials storedConnection of
                      CredOAuth2 creds \<Rightarrow>
                        storedConnection\<lparr>credentials :=
                          CredOAuth2 (creds\<lparr>expires_at :=
                            (case expires_at creds of
                               None \<Rightarrow> None
                             | Some d \<Rightarrow> Some (parseTokenExpirationDate h (JDate d)))\<rparr>)\<rparr>
                    | _ \<Rightarrow> storedConnection))"

definition updateConnection :: "Connection \<Rightarrow> Connection list \<Rightarrow> Connection list" where
  "updateConnection c table =
     map (\<lambda>r. if matches (connection_id c) (provider_config_key c) (environment_id c) r
              then c else r) table"

definition deleteConnection ::
  "collab \<Rightarrow> Connection \<Rightarrow> string \<Rightarrow> int \<Rightarrow> store \<Rightarrow> (NangoError + nat) \<times> store" where
  "deleteConnection co c pck env s =
     (let s1 = s\<lparr>effects := effects s @ [DeleteSyncSchedule c]\<rparr>
      in case deleteSyncScheduleForConnection co c of
           Some e \<Rightarrow> (Inl e, s1)
         | None \<Rightarrow>
             (Inr (length (filter (matches (connection_id c) pck env) (rows s1))),
              s1\<lparr>rows := filter (\<lambda>r. \<not> matches (connection_id c) pck env r) (rows s1),
                 effects := effects s1 @ [DbDelete (connection_id c) pck env]\<rparr>))"

section \<open>Refreshing OAuth2 credentials\<close>

text \<open>Modelled from the spec: \<open>isTokenExpired\<close> of \<open>utils/utils.ts\<close>, which is not among
  the sources; the spec's rule is that a token is stale when \<open>now + buffer >= expires_at\<close>.
  Times are in milliseconds, the buffer in seconds; an invalid date compares false.\<close>

definition isTokenExpired :: "int \<Rightarrow> Date \<Rightarrow> int \<Rightarrow> bool" where
  "isTokenExpired now expireDate bufferInSeconds =
     (case expireDate of
        Date t \<Rightarrow> t \<le> now + bufferInSeconds * 1000
      | InvalidDate \<Rightarrow> False)"

text \<open>What the provider client (not among the sources) knows about a provider.\<close>

record providers =
  shouldIntrospectToken :: "string \<Rightarrow> bool"
  shouldUseProviderClient :: "string \<Rightarrow> bool"

text \<open>
  The service is a single-threaded asynchronous program: a call runs without
  interruption until it reaches an \<open>await\<close>, and other calls run while it is
  suspended. The model is a machine whose steps are these uninterrupted segments. Its
  state holds the array \<open>runningCredentialsRefreshes\<close>, the promises created by
  \<open>new Promise(async (resolve, reject) => ...)\<close> together with the point at which
  the executor of each is suspended, the callers of \<open>refreshOauth2CredentialsIfNeeded\<close>
  with the point at which each is suspended, the table, and a log of the effects in the
  order they happen.
\<close>

record CredentialsRefresh =
  connectionId :: string
  providerConfigKey :: string
  promise :: nat

text \<open>The arguments of one call; \<open>provider\<close> is \<open>providerConfig.provider\<close> and
  \<open>token_expiration_buffer\<close> is the template's (\<open>None\<close> when the template has none).\<close>

record refresh_call =
  connection :: Connection
  provider :: string
  token_expiration_buffer :: "int option"
  activityLogId :: "int option"
  instantRefresh :: bool
  logAction :: string

text \<open>A promise is pending or settled; its executor is suspended at the outbound
  refresh call (through the provider's client or the generic token exchange), at
  \<open>updateConnection\<close> (before or after the database has applied the write), at one
  of the two activity log writes of the \<open>catch\<close> block, or has finished. A caller is
  suspended at the introspection, at one of its two activity log writes (holding the
  promise it has created), or has returned a promise, returned credentials, or thrown.\<close>

datatype promise_state = Pending | Resolved OAuth2Credentials | Rejected NangoError

datatype exec_state =
    ExecAwaitClient
  | ExecAwaitGeneric
  | ExecAwaitUpdate OAuth2Credentials
  | ExecUpdated OAuth2Credentials
  | ExecAwaitLog1 NangoError
  | ExecAwaitLog2 NangoError
  | ExecDone

datatype task_state =
    AwaitIntrospect
  | AwaitLog1 nat
  | AwaitLog2 nat
  | ReturnedPromise nat
  | ReturnedCredentials AuthCredentials
  | Threw NangoError

datatype event =
    OutboundRefresh nat
  | IntrospectCall nat
  | Persisted nat OAuth2Credentials
  | EntryRemoved nat
  | EntryPushed nat
  | PromiseResolved nat OAuth2Credentials
  | PromiseRejected nat NangoError

record promise_cell =
  settled :: promise_state
  executor :: exec_state
  closure :: refresh_call

record task =
  at :: task_state
  args :: refresh_call

record world =
  runningCredentialsRefreshes :: "CredentialsRefresh list"
  promises :: "promise_cell list"
  tasks :: "task list"
  db :: "Connection list"
  trace :: "event list"

definition start :: "Connection list \<Rightarrow> world" where
  "start table = \<lparr>runningCredentialsRefreshes = [], promises = [], tasks = [],
                   db = table, trace = []\<rparr>"

text \<open>The loop over the array (lines 455 to 460) keeps the last entry with the
  connection's key.\<close>

definition findRunningRefresh ::
  "CredentialsRefresh list \<Rightarrow> string \<Rightarrow> string \<Rightarrow> CredentialsRefresh option" where
  "findRunningRefresh rs cid pck =
     (case filter (\<lambda>r. connectionId r = cid \<and> providerConfigKey r = pck) rs of
        [] \<Rightarrow> None
      | x # xs \<Rightarrow> Some (last (x # xs)))"

definition removeRunning ::
  "CredentialsRefresh list \<Rightarrow> string \<Rightarrow> string \<Rightarrow> CredentialsRefresh list" where
  "removeRunning rs cid pck =
     filter (\<lambda>v. \<not> (providerConfigKey v = pck \<and> connectionId v = cid)) rs"

text \<open>\<open>activityLogId && logAction === 'token'\<close> (lines 501 and 521)\<close>

definition logsToken :: "refresh_call \<Rightarrow> bool" where
  "logsToken a =
     ((case activityLogId a of None \<Rightarrow> False | Some n \<Rightarrow> n \<noteq> 0) \<and> logAction a = ''token'')"

text \<open>\<open>template.token_expiration_buffer || 15 * 60\<close> (line 472)\<close>

definition bufferOf :: "refresh_call \<Rightarrow> int" where
  "bufferOf a =
     (case token_expiration_buffer a of
        None \<Rightarrow> 15 * 60
      | Some b \<Rightarrow> if b = 0 then 15 * 60 else b)"

definition setTask :: "nat \<Rightarrow> task_state \<Rightarrow> world \<Rightarrow> world" where
  "setTask t st w = w\<lparr>tasks := (tasks w)[t := (tasks w ! t)\<lparr>at := st\<rparr>]\<rparr>"

definition setExec :: "nat \<Rightarrow> exec_state \<Rightarrow> world \<Rightarrow> world" where
  "setExec p ex w = w\<lparr>promises := (promises w)[p := (promises w ! p)\<lparr>executor := ex\<rparr>]\<rparr>"

text \<open>\<open>this.runningCredentialsRefreshes.push(refresh)\<close> (lines 515 to 519 and 531)\<close>

definition push :: "nat \<Rightarrow> refresh_call \<Rightarrow> world \<Rightarrow> world" where
  "push p a w =
     w\<lparr>runningCredentialsRefreshes :=
         runningCredentialsRefreshes w
           @ [\<lparr>connectionId = connection_id (connection a),
               providerConfigKey = provider_config_key (connection a),
               promise = p\<rparr>],
       trace := trace w @ [EntryPushed p]\<rparr>"

text \<open>The filter that removes the entries of the executor's key from the array
  (lines 490 to 492 and 497 to 499).\<close>

definition unregister :: "nat \<Rightarrow> world \<Rightarrow> world" where
  "unregister p w =
     w\<lparr>runningCredentialsRefreshes :=
         removeRunning (runningCredentialsRefreshes w)
           (connection_id (connection (closure (promises w ! p))))
           (provider_config_key (connection (closure (promises w ! p)))),
       trace := trace w @ [EntryRemoved p]\<rparr>"

definition resolve :: "nat \<Rightarrow> OAuth2Credentials \<Rightarrow> world \<Rightarrow> world" where
  "resolve p c w =
     w\<lparr>promises := (promises w)[p := (promises w ! p)\<lparr>settled := Resolved c, executor := ExecDone\<rparr>],
       trace := trace w @ [PromiseResolved p c]\<rparr>"

definition reject :: "nat \<Rightarrow> NangoError \<Rightarrow> world \<Rightarrow> world" where
  "reject p e w =
     w\<lparr>promises := (promises w)[p := (promises w ! p)\<lparr>settled := Rejected e, executor := ExecDone\<rparr>],
       trace := trace w @ [PromiseRejected p e]\<rparr>"

text \<open>The \<open>catch\<close> block of the executor (lines 495 to 512), up to its first \<open>await\<close>
  or to \<open>reject(e)\<close>.\<close>

definition catchRefresh :: "nat \<Rightarrow> NangoError \<Rightarrow> world \<Rightarrow> world" where
  "catchRefresh p e w =
     (if logsToken (closure (promises w ! p))
      then setExec p (ExecAwaitLog1 e) (unregister p w)
      else reject p e (unregister p w))"

text \<open>From the test of staleness (line 470), once \<open>refresh\<close> is known, to the next
  \<open>await\<close> or to the \<open>return\<close>: the result is where the caller stands afterwards.
  Creating the promise (line 474) runs its executor up to the \<open>await\<close> on the outbound
  refresh call (line 479 or 482); the caller then awaits the activity log (line 522)
  when there is one, and pushes its entry and returns the promise (lines 531 to 533)
  otherwise.\<close>

definition decide ::
  "providers \<Rightarrow> refresh_call \<Rightarrow> bool \<Rightarrow> int \<Rightarrow> world \<Rightarrow> task_state \<times> world" where
  "decide pc a refresh now w =
     (case credentials (connection a) of
        CredOAuth2 creds \<Rightarrow>
          if truthy (refresh_token creds)
             \<and> (refresh \<or> (case expires_at creds of
                              None \<Rightarrow> False
                            | Some d \<Rightarrow> isTokenExpired now d (bufferOf a)))
          then
            let p = length (promises w);
                w1 = w\<lparr>promises := promises w
                          @ [\<lparr>settled = Pending,
                              executor = (if shouldUseProviderClient pc (provider a)
                                          then ExecAwaitClient else ExecAwaitGeneric),
                              closure = a\<rparr>],
                       trace := trace w @ [OutboundRefresh p]\<rparr>
            in if logsToken a then (AwaitLog1 p, w1) else (ReturnedPromise p, push p a w1)
          else (ReturnedCredentials (CredOAuth2 creds), w)
      | other \<Rightarrow> (ReturnedCredentials other, w))"

text \<open>A call of \<open>refreshOauth2CredentialsIfNeeded\<close>, up to its first \<open>await\<close> or
  to its \<open>return\<close>: the search of the registry (lines 453 to 464), then the value of
  \<open>refresh\<close> (lines 466 to 468), which awaits the introspection only when no instant
  refresh is asked for and the provider needs one.\<close>

definition refreshOauth2CredentialsIfNeeded :: "providers \<Rightarrow> refresh_call \<Rightarrow> int \<Rightarrow> world \<Rightarrow> world" where
  "refreshOauth2CredentialsIfNeeded pc a now w =
     (case findRunningRefresh (runningCredentialsRefreshes w)
             (connection_id (connection a)) (provider_config_key (connection a)) of
        Some runningRefresh \<Rightarrow>
          w\<lparr>tasks := tasks w @ [\<lparr>at = ReturnedPromise (promise runningRefresh), args = a\<rparr>]\<rparr>
      | None \<Rightarrow>
          if \<not> instantRefresh a \<and> shouldIntrospectToken pc (provider a)
          then w\<lparr>tasks := tasks w @ [\<lparr>at = AwaitIntrospect, args = a\<rparr>],
                 trace := trace w @ [IntrospectCall (length (tasks w))]\<rparr>
          else (case decide pc a (instantRefresh a) now w of
                  (st, w1) \<Rightarrow> w1\<lparr>tasks := tasks w1 @ [\<lparr>at = st, args = a\<rparr>]\<rparr>))"

text \<open>What the scheduler and the outside world choose: a new call, or which suspended
  \<open>await\<close> is resumed and with what result. The clock reading is given where the
  resumed segment reads the clock.\<close>

datatype refresh_reply = RawReply rawobj | CredsReply OAuth2Credentials

datatype action =
    Call refresh_call int
  | IntrospectSettled nat "NangoError + bool" int
  | LogSettled nat
  | RefreshSettled nat "NangoError + refresh_reply" int
  | UpdateApplied nat
  | UpdateSettled nat "NangoError option"
  | ExecLogSettled nat

text \<open>
  One step of the machine.
  \<^item> \<open>Call\<close>: a new call runs up to its first \<open>await\<close> or its \<open>return\<close>.
  \<^item> \<open>IntrospectSettled\<close>: the \<open>await\<close> of line 468 settles; a rejection is thrown to
    the caller, an answer is the value of \<open>refresh\<close>.
  \<^item> \<open>LogSettled\<close>: the caller's \<open>await\<close> of line 522, then that of line 524, resumes;
    after the second the entry is pushed and the promise returned (lines 531 to 533).
  \<^item> \<open>RefreshSettled\<close>: the executor's \<open>await\<close> of line 479 or 482 settles. A raw
    reply of the provider's client is parsed (line 480); with the new credentials the
    executor calls \<open>updateConnection\<close> on the connection carrying them (lines 485 to
    487); a rejection or a parse error enters the \<open>catch\<close> block.
  \<^item> \<open>UpdateApplied\<close>: the database applies the update.
  \<^item> \<open>UpdateSettled\<close>: the \<open>await\<close> of line 487 settles; on success the executor
    filters the registry and resolves the promise (lines 490 to 494).
  \<^item> \<open>ExecLogSettled\<close>: the \<open>await\<close> of line 502, then that of line 504, resumes in
    the \<open>catch\<close> block; after the second the promise is rejected (line 511).
  A step that is not enabled in the state gives \<open>None\<close>.
\<close>

fun step :: "helpers \<Rightarrow> providers \<Rightarrow> world \<Rightarrow> action \<Rightarrow> world option" where
  "step h pc w (Call a now) = Some (refreshOauth2CredentialsIfNeeded pc a now w)"
| "step h pc w (IntrospectSettled t r now) =
     (if t < length (tasks w) \<and> at (tasks w ! t) = AwaitIntrospect
      then (case r of
              Inl e \<Rightarrow> Some (setTask t (Threw e) w)
            | Inr expired \<Rightarrow>
                (case decide pc (args (tasks w ! t)) expired now w of
                   (st, w1) \<Rightarrow> Some (setTask t st w1)))
      else None)"
| "step h pc w (LogSettled t) =
     (if t < length (tasks w)
      then (case at (tasks w ! t) of
              AwaitLog1 p \<Rightarrow> Some (setTask t (AwaitLog2 p) w)
            | AwaitLog2 p \<Rightarrow> Some (setTask t (ReturnedPromise p) (push p (args (tasks w ! t)) w))
            | _ \<Rightarrow> None)
      else None)"
| "step h pc w (RefreshSettled p r now) =
     (if p < length (promises w)
      then (case executor (promises w ! p) of
              ExecAwaitClient \<Rightarrow>
                (case r of
                   Inl e \<Rightarrow> Some (catchRefresh p e w)
                 | Inr (RawReply rawCreds) \<Rightarrow>
                     (case parseRawCredentials h now rawCreds OAuth2 of
                        Inl e \<Rightarrow> Some (catchRefresh p e w)
                      | Inr (CredOAuth2 newCredentials) \<Rightarrow>
                          Some (setExec p (ExecAwaitUpdate newCredentials) w)
                      | Inr _ \<Rightarrow> None)
                 | Inr (CredsReply c) \<Rightarrow> None)
            | ExecAwaitGeneric \<Rightarrow>
                (case r of
                   Inl e \<Rightarrow> Some (catchRefresh p e w)
                 | Inr (CredsReply newCredentials) \<Rightarrow>
                     Some (setExec p (ExecAwaitUpdate newCredentials) w)
                 | Inr (RawReply rawCreds) \<Rightarrow> None)
            | _ \<Rightarrow> None)
      else None)"
| "step h pc w (UpdateApplied p) =
     (if p < length (promises w)
      then (case executor (promises w ! p) of
              ExecAwaitUpdate newCredentials \<Rightarrow>
                Some (setExec p (ExecUpdated newCredentials)
                        (w\<lparr>db := updateConnection
                                    ((connection (closure (promises w ! p)))
                                       \<lparr>credentials := CredOAuth2 newCredentials\<rparr>) (db w),
                           trace := trace w @ [Persisted p newCredentials]\<rparr>))
            | _ \<Rightarrow> None)
      else None)"
| "step h pc w (UpdateSettled p r) =
     (if p < length (promises w)
      then (case executor (promises w ! p) of
              ExecUpdated newCredentials \<Rightarrow>
                (case r of
                   None \<Rightarrow> Some (resolve p newCredentials (unregister p w))
                 | Some e \<Rightarrow> Some (catchRefresh p e w))
            | ExecAwaitUpdate newCredentials \<Rightarrow>
                (case r of
                   None \<Rightarrow> None
                 | Some e \<Rightarrow> Some (catchRefresh p e w))
            | _ \<Rightarrow> None)
      else None)"
| "step h pc w (ExecLogSettled p) =
     (if p < length (promises w)
      then (case executor (promises w ! p) of
              ExecAwaitLog1 e \<Rightarrow> Some (setExec p (ExecAwaitLog2 e) w)
            | ExecAwaitLog2 e \<Rightarrow> Some (reject p e w)
            | _ \<Rightarrow> None)
      else None)"

fun run :: "helpers \<Rightarrow> providers \<Rightarrow> world \<Rightarrow> action list \<Rightarrow> world option" where
  "run h pc w [] = Some w"
| "run h pc w (a # as) = (case step h pc w a of None \<Rightarrow> None | Some w' \<Rightarrow> run h pc w' as)"

text \<open>What a caller has received: the credentials it was handed, the error it was
  thrown, or the outcome of the promise it was handed once that is settled.\<close>

definition outcome :: "world \<Rightarrow> nat \<Rightarrow> (NangoError + AuthCredentials) option" where
  "outcome w t =
     (if t < length (tasks w)
      then (case at (tasks w ! t) of
              ReturnedCredentials c \<Rightarrow> Some (Inr c)
            | Threw e \<Rightarrow> Some (Inl e)
            | ReturnedPromise p \<Rightarrow>
                (if p < length (promises w)
                 then (case settled (promises w ! p) of
                         Pending \<Rightarrow> None
                       | Resolved c \<Rightarrow> Some (Inr (CredOAuth2 c))
                       | Rejected e \<Rightarrow> Some (Inl e))
                 else None)
            | _ \<Rightarrow> None)
      else None)"

text \<open>The outbound refresh calls in flight for a key: the executors still waiting for
  the token endpoint or the provider's client to answer.\<close>

definition inFlight :: "world \<Rightarrow> string \<Rightarrow> string \<Rightarrow> nat" where
  "inFlight w cid pck =
     length (filter (\<lambda>c. (executor c = ExecAwaitClient \<or> executor c = ExecAwaitGeneric)
                          \<and> connection_id (connection (closure c)) = cid
                          \<and> provider_config_key (connection (closure c)) = pck)
               (promises w))"

definition outboundCalls :: "world \<Rightarrow> nat" where
  "outboundCalls w = length (filter (\<lambda>e. case e of OutboundRefresh p \<Rightarrow> True | _ \<Rightarrow> False) (trace w))"

text \<open>The staleness rule in the spec's words: a refresh token is there, and an instant
  refresh was asked for, or the provider needs introspection and that reports the token
  expired, or the expiry is known and within the buffer.\<close>

definition spec_stale :: "providers \<Rightarrow> refresh_call \<Rightarrow> OAuth2Credentials \<Rightarrow> bool \<Rightarrow> int \<Rightarrow> bool" where
  "spec_stale pc a creds introspectedExpired now =
     (truthy (refresh_token creds)
      \<and> (instantRefresh a
         \<or> (shouldIntrospectToken pc (provider a) \<and> introspectedExpired)
         \<or> (case expires_at creds of
               None \<Rightarrow> False
             | Some d \<Rightarrow> isTokenExpired now d (bufferOf a))))"

text \<open>The amended rule for a call that finds no refresh registered: whether it starts a
  refresh, and what it returns when it does not. \<open>reply\<close> is the answer of the
  introspection, which is asked for only when no instant refresh is requested and the
  provider needs one; when it throws, no refresh is started and the error is thrown to
  the caller.\<close>

definition spec_refreshes :: "providers \<Rightarrow> refresh_call \<Rightarrow> NangoError + bool \<Rightarrow> int \<Rightarrow> bool" where
  "spec_refreshes pc a reply now =
     (case credentials (connection a) of
        CredOAuth2 creds \<Rightarrow>
          (case reply of
             Inl e \<Rightarrow> (instantRefresh a \<or> \<not> shouldIntrospectToken pc (provider a))
                      \<and> spec_stale pc a creds False now
           | Inr expired \<Rightarrow> spec_stale pc a creds expired now)
      | _ \<Rightarrow> False)"

definition spec_result :: "providers \<Rightarrow> refresh_call \<Rightarrow> NangoError + bool \<Rightarrow> NangoError + AuthCredentials" where
  "spec_result pc a reply =
     (case reply of
        Inl e \<Rightarrow> if instantRefresh a \<or> \<not> shouldIntrospectToken pc (provider a)
                 then Inr (credentials (connection a)) else Inl e
      | Inr expired \<Rightarrow> Inr (credentials (connection a)))"

text \<open>What the decision of caller \<open>t\<close> does, from the state before it to the state after
  it: one refresh request more, and one promise more, exactly when the rule says so;
  otherwise the caller has its result and the promises, the table and the registry are
  untouched.\<close>

definition decided ::
  "providers \<Rightarrow> refresh_call \<Rightarrow> NangoError + bool \<Rightarrow> int \<Rightarrow> nat \<Rightarrow> world \<Rightarrow> world \<Rightarrow> bool" where
  "decided pc a reply now t w w' =
     (outboundCalls w' = outboundCalls w + (if spec_refreshes pc a reply now then 1 else 0)
      \<and> length (promises w') = length (promises w) + (if spec_refreshes pc a reply now then 1 else 0)
      \<and> (\<not> spec_refreshes pc a reply now \<longrightarrow>
            outcome w' t = Some (spec_result pc a reply)
            \<and> promises w' = promises w \<and> db w' = db w
            \<and> runningCredentialsRefreshes w' = runningCredentialsRefreshes w))"

text \<open>The rows of the table with the triple of a connection, and the triples of a table.\<close>

definition rowsOf :: "Connection \<Rightarrow> Connection list \<Rightarrow> Connection list" where
  "rowsOf c table =
     filter (matches (connection_id c) (provider_config_key c) (environment_id c)) table"

definition triples :: "Connection list \<Rightarrow> (string \<times> string \<times> int) list" where
  "triples table = map (\<lambda>r. (connection_id r, provider_config_key r, environment_id r)) table"

text \<open>What one step may do to the promises and to the table: a promise keeps its
  closure; the table keeps its triples; an executor comes to stand behind the applied
  write only through \<open>UpdateApplied\<close>, which sets the table to the result of
  \<open>updateConnection\<close> on the connection with the new credentials; and a promise
  becomes resolved only through \<open>UpdateSettled\<close> with success, from an executor
  behind the applied write, leaving no entry of its key in the registry.\<close>

definition advance :: "action \<Rightarrow> world \<Rightarrow> world \<Rightarrow> bool" where
  "advance a w0 w =
     (length (promises w0) \<le> length (promises w)
      \<and> (\<forall>p. p < length (promises w0) \<longrightarrow> closure (promises w ! p) = closure (promises w0 ! p))
      \<and> triples (db w) = triples (db w0)
      \<and> (\<forall>p c. p < length (promises w) \<longrightarrow> executor (promises w ! p) = ExecUpdated c \<longrightarrow>
            (p < length (promises w0) \<and> executor (promises w0 ! p) = ExecUpdated c)
            \<or> (a = UpdateApplied p \<and> p < length (promises w0)
               \<and> db w = updateConnection
                           ((connection (closure (promises w0 ! p)))\<lparr>credentials := CredOAuth2 c\<rparr>)
                           (db w0)))
      \<and> (\<forall>p c. p < length (promises w) \<longrightarrow> settled (promises w ! p) = Resolved c \<longrightarrow>
            (p < length (promises w0) \<and> settled (promises w0 ! p) = Resolved c)
            \<or> (a = UpdateSettled p None \<and> p < length (promises w0)
               \<and> executor (promises w0 ! p) = ExecUpdated c
               \<and> findRunningRefresh (runningCredentialsRefreshes w)
                    (connection_id (connection (closure (promises w0 ! p))))
                    (provider_config_key (connection (closure (promises w0 ! p)))) = None)))"

text \<open>
  The history of a resolved promise \<open>p\<close> of connection \<open>k\<close> with credentials \<open>c\<close>
  in a run \<open>acts\<close> from the table \<open>table\<close>. \<open>wrote\<close>: the run has a step
  \<open>UpdateApplied p\<close> after which every row with the triple of \<open>k\<close> (as many as the
  table had) is \<open>k\<close> with the credentials \<open>c\<close>. \<open>storedThenCleared\<close>: moreover a later
  step of the run is \<open>UpdateSettled p None\<close>, after which no entry with the key of
  \<open>k\<close> is in the registry and the promise is resolved with \<open>c\<close>.
\<close>

definition wrote ::
  "helpers \<Rightarrow> providers \<Rightarrow> Connection list \<Rightarrow> action list \<Rightarrow> nat \<Rightarrow> Connection
     \<Rightarrow> OAuth2Credentials \<Rightarrow> bool" where
  "wrote h pc table acts p k c =
     (\<exists>acts1 acts2 w1.
        acts = acts1 @ UpdateApplied p # acts2
        \<and> run h pc (start table) (acts1 @ [UpdateApplied p]) = Some w1
        \<and> rowsOf k (db w1)
            = replicate (length (rowsOf k table)) (k\<lparr>credentials := CredOAuth2 c\<rparr>))"

definition storedThenCleared ::
  "helpers \<Rightarrow> providers \<Rightarrow> Connection list \<Rightarrow> action list \<Rightarrow> nat \<Rightarrow> Connection
     \<Rightarrow> OAuth2Credentials \<Rightarrow> bool" where
  "storedThenCleared h pc table acts p k c =
     (\<exists>acts1 acts2 acts3 w1 w2.
        acts = acts1 @ UpdateApplied p # acts2 @ UpdateSettled p None # acts3
        \<and> run h pc (start table) (acts1 @ [UpdateApplied p]) = Some w1
        \<and> rowsOf k (db w1)
            = replicate (length (rowsOf k table)) (k\<lparr>credentials := CredOAuth2 c\<rparr>)
        \<and> run h pc (start table) (acts1 @ UpdateApplied p # acts2 @ [UpdateSettled p None])
            = Some w2
        \<and> findRunningRefresh (runningCredentialsRefreshes w2)
             (connection_id k) (provider_config_key k) = None
        \<and> p < length (promises w2)
        \<and> settled (promises w2 ! p) = Resolved c)"

definition history :: "helpers \<Rightarrow> providers \<Rightarrow> Connection list \<Rightarrow> action list \<Rightarrow> world \<Rightarrow> bool" where
  "history h pc table acts w =
     (triples (db w) = triples table
      \<and> (\<forall>p c. p < length (promises w) \<longrightarrow> executor (promises w ! p) = ExecUpdated c \<longrightarrow>
            wrote h pc table acts p (connection (closure (promises w ! p))) c)
      \<and> (\<forall>p c. p < length (promises w) \<longrightarrow> settled (promises w ! p) = Resolved c \<longrightarrow>
            storedThenCleared h pc table acts p (connection (closure (promises w ! p))) c))"

section \<open>Sample data\<close>

text \<open>The scenario of the spec: connection \<open>c1\<close> under provider key \<open>slack\<close> in
  environment 42, with an OAuth2 credential \<open>a1\<close>/\<open>r1\<close> that expired at time 0; and a
  connection with the same identifier and provider key in environment 7.\<close>

definition sampleHelpers :: helpers where
  "sampleHelpers = \<lparr>parseTokenExpirationDate = (\<lambda>v. case v of JDate d \<Rightarrow> d | _ \<Rightarrow> InvalidDate),
                    JSON_stringify = (\<lambda>r. ''{}''),
                    Number_toString = (\<lambda>n. ''1e+21'')\<rparr>"

definition sampleProviders :: providers where
  "sampleProviders = \<lparr>shouldIntrospectToken = (\<lambda>p. False), shouldUseProviderClient = (\<lambda>p. False)\<rparr>"

definition introspectingProviders :: providers where
  "introspectingProviders = \<lparr>shouldIntrospectToken = (\<lambda>p. True), shouldUseProviderClient = (\<lambda>p. False)\<rparr>"

definition sampleCollab :: collab where
  "sampleCollab = \<lparr>getEnvironmentName = (\<lambda>e. JStr ''dev''),
                   deleteSyncScheduleForConnection = (\<lambda>c. None),
                   syncClient = True\<rparr>"

definition token :: "string \<Rightarrow> string \<Rightarrow> Date option \<Rightarrow> OAuth2Credentials" where
  "token a r e = \<lparr>access_token = JStr a, refresh_token = JStr r, expires_at = e, raw = []\<rparr>"

definition conn :: "nat \<Rightarrow> int \<Rightarrow> OAuth2Credentials \<Rightarrow> Connection" where
  "conn i env c = \<lparr>id_col = i, connection_id = ''c1'', provider_config_key = ''slack'',
                   environment_id = env, credentials = CredOAuth2 c,
                   connection_config = [], metadata = []\<rparr>"

definition ask :: "Connection \<Rightarrow> int option \<Rightarrow> bool \<Rightarrow> refresh_call" where
  "ask c logId instant = \<lparr>connection = c, provider = ''slack'', token_expiration_buffer = None,
                          activityLogId = logId, instantRefresh = instant, logAction = ''token''\<rparr>"

definition sampleConnection :: Connection where
  "sampleConnection = conn 1 42 (token ''a1'' ''r1'' (Some (Date 0)))"

definition otherEnvConnection :: Connection where
  "otherEnvConnection = conn 2 7 (token ''b1'' ''s1'' (Some (Date 0)))"

definition noExpiryConnection :: Connection where
  "noExpiryConnection = conn 1 42 (token ''a1'' ''r1'' None)"

definition sampleStore :: store where
  "sampleStore = \<lparr>rows = [sampleConnection, otherEnvConnection], next_id = 3, effects = []\<rparr>"

section \<open>The parser\<close>

text \<open>
  Claim C6, as amended. \<open>parseRawCredentials\<close> fails with \<open>incomplete_raw_credentials\<close>
  exactly when the mode is OAuth2 and \<open>access_token\<close> is falsy (absent, \<open>undefined\<close>,
  \<open>null\<close>, \<open>false\<close>, 0, \<open>NaN\<close> or the empty string), or the mode is OAuth1 and
  \<open>oauth_token\<close> or \<open>oauth_token_secret\<close> is falsy. An absent field is falsy, so the
  spec's condition implies the failure; and the empty object with mode OAuth2 fails.
\<close>

theorem C6_incomplete_iff_falsy:
  "((parseRawCredentials h now rawCreds authMode = Inl (NangoError ''incomplete_raw_credentials'' []))
      = (authMode = OAuth2 \<and> \<not> truthy (getProp rawCreds ''access_token'')
         \<or> authMode = OAuth1 \<and> (\<not> truthy (getProp rawCreds ''oauth_token'')
                               \<or> \<not> truthy (getProp rawCreds ''oauth_token_secret''))))
   \<and> (spec_incomplete rawCreds authMode
        \<longrightarrow> parseRawCredentials h now rawCreds authMode = Inl (NangoError ''incomplete_raw_credentials'' []))
   \<and> parseRawCredentials h now [] OAuth2 = Inl (NangoError ''incomplete_raw_credentials'' [])"
  by (cases authMode)
     (auto simp: parseRawCredentials_def spec_incomplete_def present_def getProp_def Let_def)

text \<open>An OAuth1 response without its secret is incomplete.\<close>

theorem C6_incomplete_iff_falsy_witness:
  "parseRawCredentials \<lparr>parseTokenExpirationDate = (\<lambda>v. InvalidDate), JSON_stringify = (\<lambda>r. []), Number_toString = (\<lambda>n. [])\<rparr>
      1000 [(''oauth_token'', JStr ''a'')] OAuth1
     = Inl (NangoError ''incomplete_raw_credentials'' [])"
  using C6_incomplete_iff_falsy
    [of "\<lparr>parseTokenExpirationDate = (\<lambda>v. InvalidDate), JSON_stringify = (\<lambda>r. []), Number_toString = (\<lambda>n. [])\<rparr>"
        1000 "[(''oauth_token'', JStr ''a'')]" OAuth1]
  by (simp add: getProp_def)

text \<open>Claim C6 as the spec words it fails for an access token that is present and
  empty: the field is not absent, and the parser fails.\<close>

theorem C6_counterexample:
  "\<not> ((parseRawCredentials \<lparr>parseTokenExpirationDate = (\<lambda>v. InvalidDate), JSON_stringify = (\<lambda>r. []), Number_toString = (\<lambda>n. [])\<rparr>
          1000 [(''access_token'', JStr [])] OAuth2
          = Inl (NangoError ''incomplete_raw_credentials'' []))
        = spec_incomplete [(''access_token'', JStr [])] OAuth2)"
  by (simp add: parseRawCredentials_def spec_incomplete_def present_def getProp_def)

text \<open>
  Claim C7, as amended. For an OAuth2 input with a truthy \<open>access_token\<close>, parsed at a
  clock reading that is a time value, the parser returns a credential whose
  \<open>expires_at\<close> is the parsed raw \<open>expires_at\<close> when that is truthy; otherwise, when
  \<open>expires_in\<close> is truthy, the date \<open>now\<close> plus \<open>parseInt(expires_in, 10)\<close> seconds
  (an invalid date when no integer can be read, or when the sum is out of the range of
  dates); otherwise it is absent. Where each of the two fields is truthy whenever it is
  present, this is the spec's rule.
\<close>

theorem C7_expiry_resolution:
  "truthy (getProp rawCreds ''access_token'') \<Longrightarrow> \<bar>now\<bar> \<le> 8640000000000000 \<Longrightarrow>
     (\<exists>c. parseRawCredentials h now rawCreds OAuth2 = Inr (CredOAuth2 c)
        \<and> expires_at c =
            (if truthy (getProp rawCreds ''expires_at'')
             then Some (parseTokenExpirationDate h (getProp rawCreds ''expires_at''))
             else if truthy (getProp rawCreds ''expires_in'')
             then Some (newDate (map_option (\<lambda>n. now + n * 1000)
                                   (parseInt (Number_toString h) (getProp rawCreds ''expires_in''))))
             else None))
     \<and> ((present rawCreds ''expires_at'' \<longrightarrow> truthy (getProp rawCreds ''expires_at''))
          \<and> (present rawCreds ''expires_in'' \<longrightarrow> truthy (getProp rawCreds ''expires_in''))
        \<longrightarrow> expiry_of (parseRawCredentials h now rawCreds OAuth2) = spec_expires_at h now rawCreds)"
  by (auto simp: parseRawCredentials_def expiry_of_def spec_expires_at_def present_def
                 getProp_def Let_def map_option_case split: option.splits)

text \<open>The spec's example: \<open>{access_token: "t", expires_in: "3600"}\<close> parsed at time 1000
  expires at 1000 + 3600000 milliseconds.\<close>

theorem C7_expiry_resolution_witness:
  "expiry_of (parseRawCredentials \<lparr>parseTokenExpirationDate = (\<lambda>v. InvalidDate), JSON_stringify = (\<lambda>r. []), Number_toString = (\<lambda>n. [])\<rparr>
      1000 [(''access_token'', JStr ''t''), (''expires_in'', JStr ''3600'')] OAuth2)
     = Some (Date 3601000)"
  using C7_expiry_resolution
    [where rawCreds = "[(''access_token'', JStr ''t''), (''expires_in'', JStr ''3600'')]"
       and h = "\<lparr>parseTokenExpirationDate = (\<lambda>v. InvalidDate), JSON_stringify = (\<lambda>r. []), Number_toString = (\<lambda>n. [])\<rparr>"
       and now = 1000]
  by (auto simp: getProp_def expiry_of_def newDate_def parseInt_string_def is_ws_def
        is_digit_def digit_val_def)

text \<open>A number from \<open>10^21\<close> on is read through its exponent form: \<open>1e+21\<close> reads as 1.\<close>

lemma parseInt_exponent_form:
  "parseInt (\<lambda>n. ''1e+21'') (JNum (10 ^ 21)) = Some 1"
  by (simp add: parseInt_string_def is_ws_def is_digit_def digit_val_def)

text \<open>Claim C7 as the spec words it fails for \<open>expires_in: 0\<close>: the field is present,
  and the credential has no expiry instead of expiring now.\<close>

theorem C7_counterexample:
  "expiry_of (parseRawCredentials \<lparr>parseTokenExpirationDate = (\<lambda>v. InvalidDate), JSON_stringify = (\<lambda>r. []), Number_toString = (\<lambda>n. [])\<rparr>
      1000 [(''access_token'', JStr ''t''), (''expires_in'', JNum 0)] OAuth2)
     \<noteq> spec_expires_at \<lparr>parseTokenExpirationDate = (\<lambda>v. InvalidDate), JSON_stringify = (\<lambda>r. []), Number_toString = (\<lambda>n. [])\<rparr>
          1000 [(''access_token'', JStr ''t''), (''expires_in'', JNum 0)]"
  by (simp add: parseRawCredentials_def expiry_of_def spec_expires_at_def present_def
        getProp_def newDate_def)

text \<open>
  Claim C8. With a mode that is neither OAuth2 nor OAuth1 the parser fails, whatever the
  input: the error is not the one for incomplete credentials, its type string ends with
  the JSON text of the raw input, and no credential is returned.
\<close>

theorem C8_unsupported_mode:
  "authMode \<noteq> OAuth2 \<Longrightarrow> authMode \<noteq> OAuth1 \<Longrightarrow>
     parseRawCredentials h now rawCreds authMode
       = Inl (NangoError (''Cannot parse credentials, unknown credentials type: ''
                            @ JSON_stringify h rawCreds) [])
     \<and> parseRawCredentials h now rawCreds authMode \<noteq> Inl (NangoError ''incomplete_raw_credentials'' [])
     \<and> (\<forall>c. parseRawCredentials h now rawCreds authMode \<noteq> Inr c)"
  by (cases authMode) (simp_all add: parseRawCredentials_def)

text \<open>An OAuth2 response parsed in API key mode is refused.\<close>

theorem C8_unsupported_mode_witness:
  "parseRawCredentials \<lparr>parseTokenExpirationDate = (\<lambda>v. InvalidDate), JSON_stringify = (\<lambda>r. ''{k}''), Number_toString = (\<lambda>n. [])\<rparr>
      1000 [(''access_token'', JStr ''t'')] ApiKey
     = Inl (NangoError ''Cannot parse credentials, unknown credentials type: {k}'' [])"
  using C8_unsupported_mode
    [of ApiKey "\<lparr>parseTokenExpirationDate = (\<lambda>v. InvalidDate), JSON_stringify = (\<lambda>r. ''{k}''), Number_toString = (\<lambda>n. [])\<rparr>"
        1000 "[(''access_token'', JStr ''t'')]"]
  by simp

section \<open>The store\<close>

lemma filter_matches_after_delete:
  "filter (matches cid pck env) (filter (\<lambda>r. \<not> matches cid pck env r) table) = []"
  by (induction table) auto

text \<open>
  Claim C9. \<open>deleteConnection\<close> asks the schedule service to cancel the connection's
  sync schedule first and deletes the rows afterwards: the effects it adds are the
  cancellation request followed by the deletion, and when the request throws nothing is
  deleted. After the deletion, \<open>getConnection\<close> with the connection's identifier and the
  provider key and environment that were passed (all non-empty, as \<open>getConnection\<close>
  demands) fails with \<open>unknown_connection\<close>.
\<close>

theorem C9_delete_cancels_then_removes:
  assumes "connection_id c \<noteq> []" and "pck \<noteq> []" and "env \<noteq> 0"
  shows "(deleteSyncScheduleForConnection co c = None \<longrightarrow>
            (\<exists>n s'. deleteConnection co c pck env s = (Inr n, s')
               \<and> effects s' = effects s @ [DeleteSyncSchedule c, DbDelete (connection_id c) pck env]
               \<and> rows s' = filter (\<lambda>r. \<not> matches (connection_id c) pck env r) (rows s)
               \<and> getConnection h co (connection_id c) pck env (rows s')
                    = Inl (NangoError ''unknown_connection''
                             [(''connectionId'', JStr (connection_id c)),
                              (''providerConfigKey'', JStr pck),
                              (''environmentName'', getEnvironmentName co env)])))
       \<and> (\<forall>e. deleteSyncScheduleForConnection co c = Some e \<longrightarrow>
            deleteConnection co c pck env s
              = (Inl e, s\<lparr>effects := effects s @ [DeleteSyncSchedule c]\<rparr>))"
  using assms
  by (simp add: deleteConnection_def getConnection_def filter_matches_after_delete Let_def)

text \<open>The sample connection is found before it is deleted and unknown afterwards.\<close>

theorem C9_delete_cancels_then_removes_witness:
  "effects (snd (deleteConnection sampleCollab sampleConnection ''slack'' 42 sampleStore))
     = [DeleteSyncSchedule sampleConnection, DbDelete ''c1'' ''slack'' 42]
   \<and> getConnection sampleHelpers sampleCollab ''c1'' ''slack'' 42
        (rows (snd (deleteConnection sampleCollab sampleConnection ''slack'' 42 sampleStore)))
     = Inl (NangoError ''unknown_connection''
              [(''connectionId'', JStr ''c1''), (''providerConfigKey'', JStr ''slack''),
               (''environmentName'', JStr ''dev'')])
   \<and> getConnection sampleHelpers sampleCollab ''c1'' ''slack'' 42 (rows sampleStore)
     = Inr sampleConnection"
proof -
  have k: "connection_id sampleConnection = ''c1''"
    by (simp add: sampleConnection_def conn_def)
  have n: "deleteSyncScheduleForConnection sampleCollab sampleConnection = None"
    by (simp add: sampleCollab_def)
  have g: "getEnvironmentName sampleCollab 42 = JStr ''dev''"
    by (simp add: sampleCollab_def)
  have e: "effects sampleStore = []"
    by (simp add: sampleStore_def)
  have b: "getConnection sampleHelpers sampleCollab ''c1'' ''slack'' 42 (rows sampleStore)
     = Inr sampleConnection"
    by (simp add: getConnection_def sampleStore_def sampleConnection_def otherEnvConnection_def
          conn_def token_def matches_def sampleHelpers_def)
  from C9_delete_cancels_then_removes
         [of sampleConnection "''slack''" 42 sampleCollab sampleStore sampleHelpers]
  show ?thesis using k n g e b by auto
qed

lemma matches_overwrite:
  "matches cid pck env (x\<lparr>credentials := c, connection_config := cc, metadata := md\<rparr>)
     = matches cid pck env x"
  by (simp add: matches_def)

lemma overwrite_hit:
  "matches cid pck env (if matches cid pck env x
       then x\<lparr>credentials := c, connection_config := cc, metadata := md\<rparr> else x) \<Longrightarrow>
   credentials (if matches cid pck env x
       then x\<lparr>credentials := c, connection_config := cc, metadata := md\<rparr> else x) = c
   \<and> connection_config (if matches cid pck env x
       then x\<lparr>credentials := c, connection_config := cc, metadata := md\<rparr> else x) = cc
   \<and> metadata (if matches cid pck env x
       then x\<lparr>credentials := c, connection_config := cc, metadata := md\<rparr> else x) = md"
  by (cases "matches cid pck env x") simp_all

lemma overwrite_hits:
  "\<forall>r \<in> set (map (\<lambda>x. if matches cid pck env x
                          then x\<lparr>credentials := c, connection_config := cc, metadata := md\<rparr>
                          else x) table).
      matches cid pck env r \<longrightarrow> credentials r = c \<and> connection_config r = cc \<and> metadata r = md"
proof (intro ballI impI)
  fix r
  assume "r \<in> set (map (\<lambda>x. if matches cid pck env x
                          then x\<lparr>credentials := c, connection_config := cc, metadata := md\<rparr>
                          else x) table)"
  then obtain x where r: "r = (if matches cid pck env x
                          then x\<lparr>credentials := c, connection_config := cc, metadata := md\<rparr>
                          else x)"
    unfolding set_map by (rule imageE)
  assume "matches cid pck env r"
  then show "credentials r = c \<and> connection_config r = cc \<and> metadata r = md"
    unfolding r by (rule overwrite_hit)
qed

lemma overwrite_others:
  "filter (\<lambda>r. \<not> matches cid pck env r)
      (map (\<lambda>x. if matches cid pck env x
                 then x\<lparr>credentials := c, connection_config := cc, metadata := md\<rparr>
                 else x) table)
   = filter (\<lambda>r. \<not> matches cid pck env r) table"
  by (induction table) (simp_all add: matches_overwrite)

lemma overwrite_exists:
  "filter (matches cid pck env) table \<noteq> [] \<Longrightarrow>
   filter (matches cid pck env)
      (map (\<lambda>x. if matches cid pck env x
                 then x\<lparr>credentials := c, connection_config := cc, metadata := md\<rparr>
                 else x) table) \<noteq> []"
  by (induction table) (auto simp: matches_overwrite split: if_splits)

lemma upsert_existing:
  "filter (matches cid pck env) (rows s) \<noteq> [] \<Longrightarrow>
   rows (snd (upsertConnection cid pck prov c cc env acc md s))
     = map (\<lambda>x. if matches cid pck env x
                 then x\<lparr>credentials := c, connection_config := cc, metadata := md\<rparr>
                 else x) (rows s)"
  by (cases "filter (matches cid pck env) (rows s)") (simp_all add: upsertConnection_def Let_def)

lemma rows_initiateSync: "rows (initiateSync co ids s) = rows s"
  by (cases ids) (simp_all add: initiateSync_def)

lemma import_rows:
  "importOAuthConnection co cid pck prov env accountId p s
     = (Inr (fst (upsertConnection cid pck prov (imported p) (imported_config p) env accountId
                    (imported_metadata p) s)),
        initiateSync co
          (fst (upsertConnection cid pck prov (imported p) (imported_config p) env accountId
                  (imported_metadata p) s))
          (snd (upsertConnection cid pck prov (imported p) (imported_config p) env accountId
                  (imported_metadata p) s)))"
  by (simp add: importOAuthConnection_def split: prod.splits)

text \<open>
  Claim C10. When a connection with the triple is stored, \<open>importOAuthConnection\<close>
  does not fail: it returns the row's id, every row with the triple now holds the
  imported credentials, configuration and metadata, no row is added and the other rows
  are as before; \<open>importApiAuthConnection\<close> fails with \<open>connection_already_exists\<close>
  and leaves the store as it was.
\<close>

theorem C10_import_overwrites:
  assumes "checkIfConnectionExists cid pck env s"
  shows "(\<exists>ids s'. importOAuthConnection co cid pck prov env accountId p s = (Inr ids, s')
            \<and> length (rows s') = length (rows s)
            \<and> checkIfConnectionExists cid pck env s'
            \<and> (\<forall>r \<in> set (rows s'). matches cid pck env r \<longrightarrow>
                  credentials r = imported p \<and> connection_config r = imported_config p
                  \<and> metadata r = imported_metadata p)
            \<and> filter (\<lambda>r. \<not> matches cid pck env r) (rows s')
                = filter (\<lambda>r. \<not> matches cid pck env r) (rows s))
       \<and> importApiAuthConnection co cid pck prov env accountId creds s
           = (Inl (NangoError ''connection_already_exists'' []), s)"
proof -
  from assms have ne: "filter (matches cid pck env) (rows s) \<noteq> []"
    by (simp add: checkIfConnectionExists_def)
  let ?u = "upsertConnection cid pck prov (imported p) (imported_config p) env accountId
              (imported_metadata p) s"
  let ?s' = "initiateSync co (fst ?u) (snd ?u)"
  have r: "rows ?s' = map (\<lambda>x. if matches cid pck env x
                 then x\<lparr>credentials := imported p, connection_config := imported_config p,
                        metadata := imported_metadata p\<rparr>
                 else x) (rows s)"
    by (simp only: rows_initiateSync upsert_existing [OF ne])
  have i: "importOAuthConnection co cid pck prov env accountId p s = (Inr (fst ?u), ?s')"
    by (rule import_rows)
  have l: "length (rows ?s') = length (rows s)"
    by (simp only: r length_map)
  have x: "checkIfConnectionExists cid pck env ?s'"
    unfolding checkIfConnectionExists_def r by (rule overwrite_exists [OF ne])
  have m: "\<forall>r \<in> set (rows ?s'). matches cid pck env r \<longrightarrow>
                  credentials r = imported p \<and> connection_config r = imported_config p
                  \<and> metadata r = imported_metadata p"
    unfolding r by (rule overwrite_hits)
  have o: "filter (\<lambda>r. \<not> matches cid pck env r) (rows ?s')
                = filter (\<lambda>r. \<not> matches cid pck env r) (rows s)"
    unfolding r by (rule overwrite_others)
  have a: "importApiAuthConnection co cid pck prov env accountId creds s
           = (Inl (NangoError ''connection_already_exists'' []), s)"
    using assms by (simp add: importApiAuthConnection_def)
  have "\<exists>ids s'. importOAuthConnection co cid pck prov env accountId p s = (Inr ids, s')
            \<and> length (rows s') = length (rows s)
            \<and> checkIfConnectionExists cid pck env s'
            \<and> (\<forall>r \<in> set (rows s'). matches cid pck env r \<longrightarrow>
                  credentials r = imported p \<and> connection_config r = imported_config p
                  \<and> metadata r = imported_metadata p)
            \<and> filter (\<lambda>r. \<not> matches cid pck env r) (rows s')
                = filter (\<lambda>r. \<not> matches cid pck env r) (rows s)"
    by (rule exI [of _ "fst ?u"], rule exI [of _ ?s']) (rule conjI i l x m o)+
  from this a show ?thesis by (rule conjI)
qed

text \<open>Importing over the sample connection replaces its credentials.\<close>

theorem C10_import_overwrites_witness:
  "checkIfConnectionExists ''c1'' ''slack'' 42 sampleStore
   \<and> map credentials (rows (snd (importOAuthConnection sampleCollab ''c1'' ''slack'' ''slack'' 42 9
        \<lparr>imported = CredOAuth2 (token ''a9'' ''r9'' None), imported_config = [],
          imported_metadata = []\<rparr> sampleStore)))
       = [CredOAuth2 (token ''a9'' ''r9'' None), credentials otherEnvConnection]
   \<and> importApiAuthConnection sampleCollab ''c1'' ''slack'' ''slack'' 42 9 (CredApiKey ''k'') sampleStore
       = (Inl (NangoError ''connection_already_exists'' []), sampleStore)"
proof -
  have x: "checkIfConnectionExists ''c1'' ''slack'' 42 sampleStore"
    by (simp add: checkIfConnectionExists_def sampleStore_def sampleConnection_def
          otherEnvConnection_def conn_def matches_def)
  have v: "map credentials (rows (snd (importOAuthConnection sampleCollab ''c1'' ''slack'' ''slack'' 42 9
        \<lparr>imported = CredOAuth2 (token ''a9'' ''r9'' None), imported_config = [],
          imported_metadata = []\<rparr> sampleStore)))
       = [CredOAuth2 (token ''a9'' ''r9'' None), credentials otherEnvConnection]"
    by (simp add: importOAuthConnection_def upsertConnection_def initiateSync_def sampleStore_def
          sampleConnection_def otherEnvConnection_def conn_def matches_def sampleCollab_def Let_def)
  from C10_import_overwrites [OF x, of sampleCollab "''slack''" 9
         "\<lparr>imported = CredOAuth2 (token ''a9'' ''r9'' None), imported_config = [],
           imported_metadata = []\<rparr>" "CredApiKey ''k''"]
  show ?thesis using x v by simp
qed

section \<open>The refresh machine\<close>

subsection \<open>Writing, unregistering, resolving\<close>

lemma triples_updateConnection: "triples (updateConnection c table) = triples table"
  by (induction table) (simp_all add: triples_def updateConnection_def matches_def)

lemma removeRunning_clears:
  "findRunningRefresh (removeRunning rs cid pck) cid pck = None"
proof -
  have "filter (\<lambda>r. connectionId r = cid \<and> providerConfigKey r = pck)
          (removeRunning rs cid pck) = []"
    by (induction rs) (auto simp: removeRunning_def)
  then show ?thesis by (simp add: findRunningRefresh_def)
qed

lemma advance_same:
  "promises w = promises w0 \<Longrightarrow> db w = db w0 \<Longrightarrow> advance a w0 w"
  by (simp add: advance_def)

lemma advance_decide: "decide pc x r now w0 = (st, w1) \<Longrightarrow>
    length (promises w0) \<le> length (promises w1)
    \<and> (\<forall>p. p < length (promises w0) \<longrightarrow> promises w1 ! p = promises w0 ! p)
    \<and> db w1 = db w0
    \<and> (\<forall>p. p < length (promises w1) \<longrightarrow> \<not> p < length (promises w0) \<longrightarrow>
          settled (promises w1 ! p) = Pending
          \<and> (executor (promises w1 ! p) = ExecAwaitClient \<or> executor (promises w1 ! p) = ExecAwaitGeneric))"
  by (cases "credentials (connection x)")
     (auto simp: decide_def push_def Let_def nth_append split: if_splits)

lemma advance_grow:
  assumes "length (promises w0) \<le> length (promises w1)
    \<and> (\<forall>p. p < length (promises w0) \<longrightarrow> promises w1 ! p = promises w0 ! p)
    \<and> db w1 = db w0
    \<and> (\<forall>p. p < length (promises w1) \<longrightarrow> \<not> p < length (promises w0) \<longrightarrow>
          settled (promises w1 ! p) = Pending
          \<and> (executor (promises w1 ! p) = ExecAwaitClient \<or> executor (promises w1 ! p) = ExecAwaitGeneric))"
    and "promises w = promises w1" and "db w = db w1"
  shows "advance a w0 w"
  unfolding advance_def using assms by (metis exec_state.distinct(5,15) promise_state.distinct(1))

lemma advance_catch: "p < length (promises w0) \<Longrightarrow> advance a w0 (catchRefresh p e w0)"
  by (auto simp: advance_def catchRefresh_def unregister_def setExec_def reject_def nth_list_update)

lemma advance_call: "advance a w0 (refreshOauth2CredentialsIfNeeded pc x now w0)"
proof (cases "decide pc x (instantRefresh x) now w0")
  case (Pair st w1)
  have "advance a w0 (w1\<lparr>tasks := tasks w1 @ [\<lparr>at = st, args = x\<rparr>]\<rparr>)"
    by (rule advance_grow [OF advance_decide [OF Pair]]) simp_all
  with Pair show ?thesis
    by (auto simp: refreshOauth2CredentialsIfNeeded_def advance_same split: option.splits)
qed

lemma advance_step: "step h pc w0 a = Some w \<Longrightarrow> advance a w0 w"
proof (cases a)
  case (Call x now)
  then show "step h pc w0 a = Some w \<Longrightarrow> advance a w0 w" using advance_call by auto
next
  case (IntrospectSettled t r now)
  assume s: "step h pc w0 a = Some w"
  show ?thesis
  proof (cases r)
    case (Inl e)
    with s IntrospectSettled show ?thesis
      by (auto simp: advance_same setTask_def split: if_splits)
  next
    case (Inr b)
    obtain st w1 where d: "decide pc (args (tasks w0 ! t)) b now w0 = (st, w1)" by force
    have "advance a w0 (setTask t st w1)"
      by (rule advance_grow [OF advance_decide [OF d]]) (simp_all add: setTask_def)
    with s IntrospectSettled Inr d show ?thesis by (auto split: if_splits)
  qed
next
  case (LogSettled t)
  assume s: "step h pc w0 a = Some w"
  with LogSettled show ?thesis
    by (auto simp: advance_same setTask_def push_def split: if_splits task_state.splits)
next
  case (RefreshSettled p r now)
  assume s: "step h pc w0 a = Some w"
  with RefreshSettled show ?thesis
    by (auto simp: advance_catch split: if_splits exec_state.splits sum.splits
          refresh_reply.splits AuthCredentials.splits)
       (auto simp: advance_def setExec_def nth_list_update)
next
  case (UpdateApplied p)
  assume s: "step h pc w0 a = Some w"
  with UpdateApplied show ?thesis
    by (auto simp: advance_def setExec_def nth_list_update triples_updateConnection
          split: if_splits exec_state.splits)
next
  case (UpdateSettled p r)
  assume s: "step h pc w0 a = Some w"
  with UpdateSettled show ?thesis
    by (auto simp: advance_catch split: if_splits exec_state.splits option.splits)
       (auto simp: advance_def resolve_def unregister_def nth_list_update removeRunning_clears)
next
  case (ExecLogSettled p)
  assume s: "step h pc w0 a = Some w"
  with ExecLogSettled show ?thesis
    by (auto simp: advance_def setExec_def reject_def nth_list_update
          split: if_splits exec_state.splits)
qed

lemma run_snoc:
  "run h pc w0 (acts @ [a]) = (case run h pc w0 acts of None \<Rightarrow> None | Some w \<Rightarrow> step h pc w a)"
  by (induction acts arbitrary: w0) (auto split: option.splits)

lemma rowsOf_updateConnection:
  "rowsOf k (updateConnection (k\<lparr>credentials := c\<rparr>) table)
     = replicate (length (rowsOf k table)) (k\<lparr>credentials := c\<rparr>)"
  by (induction table) (simp_all add: rowsOf_def updateConnection_def matches_def)

lemma length_rowsOf_triples:
  "length (rowsOf k table)
     = length (filter (\<lambda>t. t = (connection_id k, provider_config_key k, environment_id k))
                 (triples table))"
  by (induction table) (simp_all add: rowsOf_def triples_def matches_def)

lemma wrote_snoc: "wrote h pc table acts p k c \<Longrightarrow> wrote h pc table (acts @ [a]) p k c"
proof -
  assume "wrote h pc table acts p k c"
  then obtain acts1 acts2 w1 where
    a: "acts = acts1 @ UpdateApplied p # acts2"
    and r: "run h pc (start table) (acts1 @ [UpdateApplied p]) = Some w1"
    and d: "rowsOf k (db w1)
            = replicate (length (rowsOf k table)) (k\<lparr>credentials := CredOAuth2 c\<rparr>)"
    unfolding wrote_def by blast
  from a have "acts @ [a] = acts1 @ UpdateApplied p # (acts2 @ [a])" by simp
  with r d show ?thesis unfolding wrote_def by blast
qed

lemma storedThenCleared_snoc:
  "storedThenCleared h pc table acts p k c \<Longrightarrow> storedThenCleared h pc table (acts @ [a]) p k c"
proof -
  assume "storedThenCleared h pc table acts p k c"
  then obtain acts1 acts2 acts3 w1 w2 where
    a: "acts = acts1 @ UpdateApplied p # acts2 @ UpdateSettled p None # acts3"
    and r: "run h pc (start table) (acts1 @ [UpdateApplied p]) = Some w1"
    and d: "rowsOf k (db w1)
            = replicate (length (rowsOf k table)) (k\<lparr>credentials := CredOAuth2 c\<rparr>)"
    and r2: "run h pc (start table) (acts1 @ UpdateApplied p # acts2 @ [UpdateSettled p None])
            = Some w2"
    and f: "findRunningRefresh (runningCredentialsRefreshes w2)
             (connection_id k) (provider_config_key k) = None"
    and l: "p < length (promises w2)"
    and s: "settled (promises w2 ! p) = Resolved c"
    unfolding storedThenCleared_def by blast
  from a have "acts @ [a]
      = acts1 @ UpdateApplied p # acts2 @ UpdateSettled p None # (acts3 @ [a])" by simp
  with r d r2 f l s show ?thesis unfolding storedThenCleared_def by blast
qed

lemma storedThenCleared_last:
  assumes w: "wrote h pc table acts p k c"
    and r2: "run h pc (start table) (acts @ [UpdateSettled p None]) = Some w2"
    and f: "findRunningRefresh (runningCredentialsRefreshes w2)
             (connection_id k) (provider_config_key k) = None"
    and l: "p < length (promises w2)"
    and s: "settled (promises w2 ! p) = Resolved c"
  shows "storedThenCleared h pc table (acts @ [UpdateSettled p None]) p k c"
proof -
  from w obtain acts1 acts2 w1 where
    a: "acts = acts1 @ UpdateApplied p # acts2"
    and r: "run h pc (start table) (acts1 @ [UpdateApplied p]) = Some w1"
    and d: "rowsOf k (db w1)
            = replicate (length (rowsOf k table)) (k\<lparr>credentials := CredOAuth2 c\<rparr>)"
    unfolding wrote_def by blast
  from a have e: "acts @ [UpdateSettled p None]
      = acts1 @ UpdateApplied p # acts2 @ UpdateSettled p None # []" by simp
  from r2 a have r2': "run h pc (start table)
      (acts1 @ UpdateApplied p # acts2 @ [UpdateSettled p None]) = Some w2" by simp
  from e r d r2' f l s show ?thesis unfolding storedThenCleared_def by blast
qed

lemma history_step:
  assumes r0: "run h pc (start table) acts = Some w0"
    and st: "step h pc w0 a = Some w"
    and h0: "history h pc table acts w0"
  shows "history h pc table (acts @ [a]) w"
proof -
  from st have adv: "advance a w0 w" by (rule advance_step)
  from r0 st have r: "run h pc (start table) (acts @ [a]) = Some w" by (simp add: run_snoc)
  from adv have cl: "\<And>p. p < length (promises w0) \<Longrightarrow>
        closure (promises w ! p) = closure (promises w0 ! p)"
    and tr: "triples (db w) = triples (db w0)"
    and f4: "\<And>p c. p < length (promises w) \<Longrightarrow> executor (promises w ! p) = ExecUpdated c \<Longrightarrow>
            (p < length (promises w0) \<and> executor (promises w0 ! p) = ExecUpdated c)
            \<or> (a = UpdateApplied p \<and> p < length (promises w0)
               \<and> db w = updateConnection
                           ((connection (closure (promises w0 ! p)))\<lparr>credentials := CredOAuth2 c\<rparr>)
                           (db w0))"
    and f5: "\<And>p c. p < length (promises w) \<Longrightarrow> settled (promises w ! p) = Resolved c \<Longrightarrow>
            (p < length (promises w0) \<and> settled (promises w0 ! p) = Resolved c)
            \<or> (a = UpdateSettled p None \<and> p < length (promises w0)
               \<and> executor (promises w0 ! p) = ExecUpdated c
               \<and> findRunningRefresh (runningCredentialsRefreshes w)
                    (connection_id (connection (closure (promises w0 ! p))))
                    (provider_config_key (connection (closure (promises w0 ! p)))) = None)"
    unfolding advance_def by blast+
  from h0 have j1: "triples (db w0) = triples table"
    and j2: "\<And>p c. p < length (promises w0) \<Longrightarrow> executor (promises w0 ! p) = ExecUpdated c \<Longrightarrow>
            wrote h pc table acts p (connection (closure (promises w0 ! p))) c"
    and j3: "\<And>p c. p < length (promises w0) \<Longrightarrow> settled (promises w0 ! p) = Resolved c \<Longrightarrow>
            storedThenCleared h pc table acts p (connection (closure (promises w0 ! p))) c"
    unfolding history_def by blast+
  have n1: "triples (db w) = triples table" using tr j1 by simp
  have n2: "wrote h pc table (acts @ [a]) p (connection (closure (promises w ! p))) c"
    if l: "p < length (promises w)" and e: "executor (promises w ! p) = ExecUpdated c" for p c
  proof -
    from f4 [OF l e] show ?thesis
    proof
      assume o: "p < length (promises w0) \<and> executor (promises w0 ! p) = ExecUpdated c"
      then have "wrote h pc table acts p (connection (closure (promises w0 ! p))) c"
        using j2 by blast
      then have "wrote h pc table (acts @ [a]) p (connection (closure (promises w0 ! p))) c"
        by (rule wrote_snoc)
      with o show ?thesis by (simp add: cl)
    next
      let ?k = "connection (closure (promises w0 ! p))"
      assume n: "a = UpdateApplied p \<and> p < length (promises w0)
               \<and> db w = updateConnection (?k\<lparr>credentials := CredOAuth2 c\<rparr>) (db w0)"
      then have "rowsOf ?k (db w)
                   = replicate (length (rowsOf ?k (db w0))) (?k\<lparr>credentials := CredOAuth2 c\<rparr>)"
        by (simp add: rowsOf_updateConnection)
      moreover have "length (rowsOf ?k (db w0)) = length (rowsOf ?k table)"
        by (simp add: length_rowsOf_triples j1)
      ultimately have d: "rowsOf ?k (db w)
                   = replicate (length (rowsOf ?k table)) (?k\<lparr>credentials := CredOAuth2 c\<rparr>)"
        by simp
      from r n have r': "run h pc (start table) (acts @ [UpdateApplied p]) = Some w" by simp
      from n have e': "acts @ [a] = acts @ UpdateApplied p # []" by simp
      from e' r' d have "wrote h pc table (acts @ [a]) p ?k c"
        unfolding wrote_def by blast
      with n show ?thesis by (simp add: cl)
    qed
  qed
  have n3: "storedThenCleared h pc table (acts @ [a]) p (connection (closure (promises w ! p))) c"
    if l: "p < length (promises w)" and e: "settled (promises w ! p) = Resolved c" for p c
  proof -
    from f5 [OF l e] show ?thesis
    proof
      assume o: "p < length (promises w0) \<and> settled (promises w0 ! p) = Resolved c"
      then have "storedThenCleared h pc table acts p (connection (closure (promises w0 ! p))) c"
        using j3 by blast
      then have "storedThenCleared h pc table (acts @ [a]) p
                   (connection (closure (promises w0 ! p))) c"
        by (rule storedThenCleared_snoc)
      with o show ?thesis by (simp add: cl)
    next
      let ?k = "connection (closure (promises w0 ! p))"
      assume n: "a = UpdateSettled p None \<and> p < length (promises w0)
               \<and> executor (promises w0 ! p) = ExecUpdated c
               \<and> findRunningRefresh (runningCredentialsRefreshes w)
                    (connection_id ?k) (provider_config_key ?k) = None"
      then have w: "wrote h pc table acts p ?k c" using j2 by blast
      from r n have r': "run h pc (start table) (acts @ [UpdateSettled p None]) = Some w"
        by simp
      from n have f: "findRunningRefresh (runningCredentialsRefreshes w)
                    (connection_id ?k) (provider_config_key ?k) = None" by blast
      have "storedThenCleared h pc table (acts @ [UpdateSettled p None]) p ?k c"
        by (rule storedThenCleared_last [OF w r' f l e])
      with n show ?thesis by (simp add: cl)
    qed
  qed
  show ?thesis unfolding history_def using n1 n2 n3 by blast
qed

lemma history_run:
  "run h pc (start table) acts = Some w \<Longrightarrow> history h pc table acts w"
proof (induction acts arbitrary: w rule: rev_induct)
  case Nil
  then have "w = start table" by simp
  then show ?case by (simp add: history_def start_def)
next
  case (snoc a acts)
  from snoc.prems obtain w0 where r0: "run h pc (start table) acts = Some w0"
    and st: "step h pc w0 a = Some w"
    by (auto simp: run_snoc split: option.splits)
  from r0 have "history h pc table acts w0" by (rule snoc.IH)
  with r0 st show ?case by (rule history_step)
qed

text \<open>
  Claim C5, as amended. In every run of the machine from an empty registry, whatever the
  schedule and whatever the outside world answers: if a promise is resolved with
  credentials (in particular if a caller that was handed the promise has received
  them), then an earlier step of the run applied the write of \<open>updateConnection\<close>, after
  which every row of the table with the connection's triple held the connection with
  these credentials, and a later step, the one that resolved the promise, left no entry
  with the connection's key in the registry.
\<close>

theorem C5_written_before_resolved:
  assumes "run h pc (start table) acts = Some w"
  shows "(\<forall>p c. p < length (promises w) \<longrightarrow> settled (promises w ! p) = Resolved c \<longrightarrow>
            storedThenCleared h pc table acts p (connection (closure (promises w ! p))) c)
       \<and> (\<forall>t p c. t < length (tasks w) \<longrightarrow> at (tasks w ! t) = ReturnedPromise p \<longrightarrow>
            outcome w t = Some (Inr (CredOAuth2 c)) \<longrightarrow>
            storedThenCleared h pc table acts p (connection (closure (promises w ! p))) c)"
proof -
  from assms have "history h pc table acts w" by (rule history_run)
  then have j3: "\<And>p c. p < length (promises w) \<Longrightarrow> settled (promises w ! p) = Resolved c \<Longrightarrow>
            storedThenCleared h pc table acts p (connection (closure (promises w ! p))) c"
    unfolding history_def by blast
  have "storedThenCleared h pc table acts p (connection (closure (promises w ! p))) c"
    if "t < length (tasks w)" "at (tasks w ! t) = ReturnedPromise p"
       "outcome w t = Some (Inr (CredOAuth2 c))" for t p c
  proof -
    from that have "p < length (promises w) \<and> settled (promises w ! p) = Resolved c"
      by (auto simp: outcome_def split: if_splits promise_state.splits)
    then show ?thesis using j3 by blast
  qed
  with j3 show ?thesis by blast
qed

subsection \<open>Schedules\<close>

lemmas sample_defs = sampleHelpers_def sampleProviders_def sampleConnection_def
  otherEnvConnection_def conn_def token_def ask_def start_def

lemmas machine_defs = refreshOauth2CredentialsIfNeeded_def decide_def findRunningRefresh_def logsToken_def bufferOf_def
  isTokenExpired_def push_def setTask_def setExec_def unregister_def removeRunning_def
  resolve_def reject_def catchRefresh_def updateConnection_def matches_def

text \<open>A refresh of the sample connection that succeeds: its row holds the new
  credentials after the write.\<close>

theorem C5_written_before_resolved_witness:
  "storedThenCleared sampleHelpers sampleProviders [sampleConnection]
     [Call (ask sampleConnection None False) 1000,
      RefreshSettled 0 (Inr (CredsReply (token ''a2'' ''r2'' None))) 1001,
      UpdateApplied 0, UpdateSettled 0 None] 0 sampleConnection (token ''a2'' ''r2'' None)
   \<and> map_option db
       (run sampleHelpers sampleProviders (start [sampleConnection])
          [Call (ask sampleConnection None False) 1000,
           RefreshSettled 0 (Inr (CredsReply (token ''a2'' ''r2'' None))) 1001,
           UpdateApplied 0])
     = Some [conn 1 42 (token ''a2'' ''r2'' None)]"
proof -
  have "\<exists>w. run sampleHelpers sampleProviders (start [sampleConnection])
          [Call (ask sampleConnection None False) 1000,
           RefreshSettled 0 (Inr (CredsReply (token ''a2'' ''r2'' None))) 1001,
           UpdateApplied 0, UpdateSettled 0 None] = Some w
       \<and> 0 < length (promises w)
       \<and> settled (promises w ! 0) = Resolved (token ''a2'' ''r2'' None)
       \<and> connection (closure (promises w ! 0)) = sampleConnection"
    by (simp add: sample_defs machine_defs)
  then obtain w where r: "run sampleHelpers sampleProviders (start [sampleConnection])
          [Call (ask sampleConnection None False) 1000,
           RefreshSettled 0 (Inr (CredsReply (token ''a2'' ''r2'' None))) 1001,
           UpdateApplied 0, UpdateSettled 0 None] = Some w"
    and l: "0 < length (promises w)"
    and s: "settled (promises w ! 0) = Resolved (token ''a2'' ''r2'' None)"
    and k: "connection (closure (promises w ! 0)) = sampleConnection" by blast
  from C5_written_before_resolved [OF r] l s
  have "storedThenCleared sampleHelpers sampleProviders [sampleConnection]
     [Call (ask sampleConnection None False) 1000,
      RefreshSettled 0 (Inr (CredsReply (token ''a2'' ''r2'' None))) 1001,
      UpdateApplied 0, UpdateSettled 0 None] 0 (connection (closure (promises w ! 0)))
      (token ''a2'' ''r2'' None)" by blast
  then have a: "storedThenCleared sampleHelpers sampleProviders [sampleConnection]
     [Call (ask sampleConnection None False) 1000,
      RefreshSettled 0 (Inr (CredsReply (token ''a2'' ''r2'' None))) 1001,
      UpdateApplied 0, UpdateSettled 0 None] 0 sampleConnection (token ''a2'' ''r2'' None)"
    by (simp only: k)
  have b: "map_option db
       (run sampleHelpers sampleProviders (start [sampleConnection])
          [Call (ask sampleConnection None False) 1000,
           RefreshSettled 0 (Inr (CredsReply (token ''a2'' ''r2'' None))) 1001,
           UpdateApplied 0])
     = Some [conn 1 42 (token ''a2'' ''r2'' None)]"
    by (simp add: sample_defs machine_defs)
  from a b show ?thesis by (rule conjI)
qed

text \<open>
  Claim C5 as the spec words it fails. When the connection's row is no longer in the
  table, \<open>updateConnection\<close> writes nothing, and the caller receives credentials that
  were never stored. And with an activity log attached, when the refresh and the update
  finish before the caller's two log writes, the entry is pushed after the promise has
  resolved and is never removed (the defect of claims C1 and C4).
\<close>

theorem C5_counterexample:
  "map_option (\<lambda>w. (outcome w 0, db w))
     (run sampleHelpers sampleProviders (start [])
        [Call (ask sampleConnection None False) 1000,
         RefreshSettled 0 (Inr (CredsReply (token ''a2'' ''r2'' None))) 1001,
         UpdateApplied 0, UpdateSettled 0 None])
     = Some (Some (Inr (CredOAuth2 (token ''a2'' ''r2'' None))), [])
   \<and> map_option db
     (run sampleHelpers sampleProviders (start [])
        [Call (ask sampleConnection None False) 1000,
         RefreshSettled 0 (Inr (CredsReply (token ''a2'' ''r2'' None))) 1001,
         UpdateApplied 0])
     = Some []
   \<and> map_option (\<lambda>w. (map settled (promises w), runningCredentialsRefreshes w))
     (run sampleHelpers sampleProviders (start [sampleConnection])
        [Call (ask sampleConnection (Some 5) False) 1000,
         RefreshSettled 0 (Inr (CredsReply (token ''a2'' ''r2'' None))) 1001,
         UpdateApplied 0, UpdateSettled 0 None, LogSettled 0, LogSettled 0])
     = Some ([Resolved (token ''a2'' ''r2'' None)],
             [\<lparr>connectionId = ''c1'', providerConfigKey = ''slack'', promise = 0\<rparr>])"
  by (simp add: sample_defs machine_defs outcome_def)

text \<open>
  Claim C1 fails on the code. Two calls for the sample connection arrive with an
  activity log attached. The first creates its promise, which sends the refresh request,
  and is suspended at \<open>await updateActivityLogAction\<close> before it has pushed its entry;
  the second finds the registry empty and sends a second request: two requests are in
  flight for the key and the registry is empty. Run to the end, the two callers receive
  different credentials. The same two calls without an activity log share one promise
  and one request.
\<close>

theorem C1_two_refreshes_in_flight:
  "map_option (\<lambda>w. (inFlight w ''c1'' ''slack'', outboundCalls w, runningCredentialsRefreshes w))
     (run sampleHelpers sampleProviders (start [sampleConnection])
        [Call (ask sampleConnection (Some 5) False) 1000,
         Call (ask sampleConnection (Some 5) False) 1000])
     = Some (2, 2, [])
   \<and> map_option (\<lambda>w. (outcome w 0, outcome w 1, outboundCalls w))
     (run sampleHelpers sampleProviders (start [sampleConnection])
        [Call (ask sampleConnection (Some 5) False) 1000,
         Call (ask sampleConnection (Some 5) False) 1000,
         LogSettled 0, LogSettled 0, LogSettled 1, LogSettled 1,
         RefreshSettled 0 (Inr (CredsReply (token ''a2'' ''r2'' None))) 1001,
         UpdateApplied 0, UpdateSettled 0 None,
         RefreshSettled 1 (Inr (CredsReply (token ''a3'' ''r3'' None))) 1002,
         UpdateApplied 1, UpdateSettled 1 None])
     = Some (Some (Inr (CredOAuth2 (token ''a2'' ''r2'' None))),
             Some (Inr (CredOAuth2 (token ''a3'' ''r3'' None))), 2)
   \<and> map_option (\<lambda>w. (inFlight w ''c1'' ''slack'', outboundCalls w, map at (tasks w)))
     (run sampleHelpers sampleProviders (start [sampleConnection])
        [Call (ask sampleConnection None False) 1000,
         Call (ask sampleConnection None False) 1000])
     = Some (1, 1, [ReturnedPromise 0, ReturnedPromise 0])"
  by (simp add: sample_defs machine_defs inFlight_def outboundCalls_def outcome_def)

text \<open>A connection that \<open>getConnection\<close> returns is the one asked for, in the
  environment asked for.\<close>

lemma getConnection_scoped:
  assumes "getConnection h co cid pck env table = Inr c"
  shows "connection_id c = cid \<and> provider_config_key c = pck \<and> environment_id c = env"
proof -
  from assms obtain r rs where f: "filter (matches cid pck env) table = r # rs"
    and c: "c = (case credentials r of
                   CredOAuth2 creds \<Rightarrow>
                     r\<lparr>credentials :=
                       CredOAuth2 (creds\<lparr>expires_at :=
                         (case expires_at creds of
                            None \<Rightarrow> None
                          | Some d \<Rightarrow> Some (parseTokenExpirationDate h (JDate d)))\<rparr>)\<rparr>
                 | _ \<Rightarrow> r)"
    by (auto simp: getConnection_def split: if_splits list.splits)
  from f have "r \<in> set (filter (matches cid pck env) table)" by simp
  then have "matches cid pck env r" by simp
  then show ?thesis
    unfolding c by (cases "credentials r") (simp_all add: matches_def)
qed

text \<open>
  Claim C2 fails on the code. Environments 42 and 7 both hold a connection \<open>c1\<close> under
  \<open>slack\<close>. \<open>getConnection\<close> for environment 7 returns the connection of environment 7;
  but the registry is keyed by connection identifier and provider key only, so the call
  made with that connection while the refresh for environment 42 is pending is handed
  the promise of environment 42 and receives its new credentials, which are stored in
  the row of environment 42 and not in the row of environment 7.
\<close>

theorem C2_cross_environment_leak:
  "getConnection sampleHelpers sampleCollab ''c1'' ''slack'' 7 [sampleConnection, otherEnvConnection]
     = Inr otherEnvConnection
   \<and> map_option (\<lambda>w. (outcome w 1, map (\<lambda>r. (environment_id r, credentials r)) (db w)))
     (run sampleHelpers sampleProviders (start [sampleConnection, otherEnvConnection])
        [Call (ask sampleConnection None False) 1000,
         Call (ask otherEnvConnection None False) 1000,
         RefreshSettled 0 (Inr (CredsReply (token ''a2'' ''r2'' None))) 1001,
         UpdateApplied 0, UpdateSettled 0 None])
     = Some (Some (Inr (CredOAuth2 (token ''a2'' ''r2'' None))),
             [(42, CredOAuth2 (token ''a2'' ''r2'' None)),
              (7, CredOAuth2 (token ''b1'' ''s1'' (Some (Date 0))))])"
  by (simp add: sample_defs machine_defs outcome_def getConnection_def sampleCollab_def)

text \<open>The filter of an executor leaves no entry of its key in the registry.\<close>

lemma unregister_clears_key:
  "findRunningRefresh (runningCredentialsRefreshes (unregister p w))
     (connection_id (connection (closure (promises w ! p))))
     (provider_config_key (connection (closure (promises w ! p)))) = None"
proof -
  have "filter (\<lambda>r. connectionId r = cid \<and> providerConfigKey r = pck)
          (removeRunning rs cid pck) = []" for rs cid pck
    by (induction rs) (auto simp: removeRunning_def)
  then show ?thesis
    by (simp add: unregister_def findRunningRefresh_def)
qed

text \<open>
  Claim C4 fails on the code. A call with an activity log attached creates its promise
  and is suspended at \<open>await updateActivityLogAction\<close>; the refresh fails at once, and
  the \<open>catch\<close> block filters the registry, where the entry is not yet; the caller then
  resumes and pushes the entry; the executor rejects the promise. The entry stays in the
  registry with a rejected promise, and a later call for the key, even one that forces a
  refresh, is handed that promise: it fails with the old error and no request is sent.
\<close>

theorem C4_entry_left_after_failure:
  "map_option (\<lambda>w. (runningCredentialsRefreshes w, map settled (promises w), outcome w 1,
                     outboundCalls w))
     (run sampleHelpers sampleProviders (start [sampleConnection])
        [Call (ask sampleConnection (Some 5) False) 1000,
         RefreshSettled 0 (Inl (NangoError ''refresh_failed'' [])) 1001,
         LogSettled 0, LogSettled 0, ExecLogSettled 0, ExecLogSettled 0,
         Call (ask sampleConnection None True) 5000])
     = Some ([\<lparr>connectionId = ''c1'', providerConfigKey = ''slack'', promise = 0\<rparr>],
             [Rejected (NangoError ''refresh_failed'' [])],
             Some (Inl (NangoError ''refresh_failed'' [])), 1)"
  by (simp add: sample_defs machine_defs outboundCalls_def outcome_def)

text \<open>
  Claim C3 as the spec words it fails in four ways. (1) A refresh is already registered
  for the key: the connection has a refresh token and no expiry, and its provider needs
  no introspection; a first call forces a refresh; a second call, which does not, is not
  stale by the spec's rule, and yet it is handed the pending promise and receives the
  new credentials, not the stored ones. (2) The introspection throws: the connection is
  stale by the spec's rule (its expiry has passed), and the call sends no request and
  fails. (3) The template's buffer is 0 and the token expires in ten minutes: with that
  buffer it is not expired, and the call refreshes, with a buffer of 900 seconds.
  (4) The refresh token is the empty string and an instant refresh is asked for: no
  request is sent and the stored credentials are returned.
\<close>

theorem C3_counterexample:
  "map_option (\<lambda>w. (outcome w 1, outboundCalls w))
     (run sampleHelpers sampleProviders (start [noExpiryConnection])
        [Call (ask noExpiryConnection None True) 1000,
         Call (ask noExpiryConnection None False) 1000,
         RefreshSettled 0 (Inr (CredsReply (token ''a2'' ''r2'' None))) 1001,
         UpdateApplied 0, UpdateSettled 0 None])
     = Some (Some (Inr (CredOAuth2 (token ''a2'' ''r2'' None))), 1)
   \<and> \<not> spec_stale sampleProviders (ask noExpiryConnection None False)
          (token ''a1'' ''r1'' None) False 1000
   \<and> credentials (connection (ask noExpiryConnection None False))
       = CredOAuth2 (token ''a1'' ''r1'' None)
   \<and> map_option (\<lambda>w. (outcome w 0, outboundCalls w))
     (run sampleHelpers introspectingProviders (start [sampleConnection])
        [Call (ask sampleConnection None False) 1000,
         IntrospectSettled 0 (Inl (NangoError ''introspection_failed'' [])) 1000])
     = Some (Some (Inl (NangoError ''introspection_failed'' [])), 0)
   \<and> spec_stale introspectingProviders (ask sampleConnection None False)
          (token ''a1'' ''r1'' (Some (Date 0))) False 1000
   \<and> map_option outboundCalls
     (run sampleHelpers sampleProviders (start [])
        [Call ((ask (conn 1 42 (token ''a1'' ''r1'' (Some (Date 601000)))) None False)
                 \<lparr>token_expiration_buffer := Some 0\<rparr>) 1000])
     = Some 1
   \<and> \<not> isTokenExpired 1000 (Date 601000) 0
   \<and> map_option (\<lambda>w. (outcome w 0, outboundCalls w))
     (run sampleHelpers sampleProviders (start [])
        [Call (ask (conn 1 42 (token ''a1'' [] None)) None True) 1000])
     = Some (Some (Inr (CredOAuth2 (token ''a1'' [] None))), 0)"
  by (simp add: sample_defs noExpiryConnection_def introspectingProviders_def machine_defs
        outboundCalls_def outcome_def spec_stale_def)

subsection \<open>Staleness\<close>

lemma outboundCalls_tasks [simp]: "outboundCalls (w\<lparr>tasks := ts\<rparr>) = outboundCalls w"
  by (simp add: outboundCalls_def)

lemma outboundCalls_setTask [simp]: "outboundCalls (setTask t st w) = outboundCalls w"
  by (simp add: outboundCalls_def setTask_def)

lemma outcome_returned:
  "t < length (tasks w) \<Longrightarrow> at (tasks w ! t) = ReturnedCredentials c \<Longrightarrow> outcome w t = Some (Inr c)"
  by (simp add: outcome_def)

lemma bufferOf_default:
  "bufferOf a = (case token_expiration_buffer a of
                   None \<Rightarrow> 900 | Some b \<Rightarrow> if b = 0 then 900 else b)"
  by (simp add: bufferOf_def split: option.splits)

lemma decide_cases:
  "decide pc a r now w = (st, w1) \<Longrightarrow>
     (if (case credentials (connection a) of
            CredOAuth2 creds \<Rightarrow>
              truthy (refresh_token creds)
              \<and> (r \<or> (case expires_at creds of None \<Rightarrow> False
                        | Some d \<Rightarrow> isTokenExpired now d (bufferOf a)))
          | _ \<Rightarrow> False)
      then outboundCalls w1 = Suc (outboundCalls w)
           \<and> length (promises w1) = Suc (length (promises w))
           \<and> tasks w1 = tasks w
      else st = ReturnedCredentials (credentials (connection a)) \<and> w1 = w)"
  by (cases "credentials (connection a)")
     (auto simp: decide_def outboundCalls_def push_def Let_def split: if_splits)

lemma introspection_decided:
  assumes t: "t < length (tasks w2)" and k: "tasks w2 ! t = \<lparr>at = AwaitIntrospect, args = a\<rparr>"
    and i: "\<not> instantRefresh a \<and> shouldIntrospectToken pc (provider a)"
  shows "\<exists>w'. step h pc w2 (IntrospectSettled t reply now) = Some w' \<and> decided pc a reply now t w2 w'"
proof (cases reply)
  case (Inl e)
  let ?w' = "setTask t (Threw e) w2"
  have r: "step h pc w2 (IntrospectSettled t reply now) = Some ?w'"
    using t k by (simp add: Inl)
  have s: "\<not> spec_refreshes pc a reply now"
    using i by (simp add: spec_refreshes_def Inl split: AuthCredentials.splits)
  have q: "spec_result pc a reply = Inl e"
    using i by (simp add: spec_result_def Inl)
  have "decided pc a reply now t w2 ?w'"
    using t by (simp add: decided_def s q setTask_def outcome_def)
  with r show ?thesis by (intro exI [of _ ?w'] conjI)
next
  case (Inr expired)
  obtain st w1 where d: "decide pc a expired now w2 = (st, w1)" by force
  let ?w' = "setTask t st w1"
  have r: "step h pc w2 (IntrospectSettled t reply now) = Some ?w'"
    using t k by (simp add: Inr d)
  have s: "spec_refreshes pc a reply now
           = (case credentials (connection a) of
                CredOAuth2 creds \<Rightarrow>
                  truthy (refresh_token creds)
                  \<and> (expired \<or> (case expires_at creds of None \<Rightarrow> False
                                  | Some d \<Rightarrow> isTokenExpired now d (bufferOf a)))
              | _ \<Rightarrow> False)"
    using i by (simp add: spec_refreshes_def spec_stale_def Inr split: AuthCredentials.splits)
  have q: "spec_result pc a reply = Inr (credentials (connection a))"
    by (simp add: spec_result_def Inr)
  note ds = decide_cases [OF d, folded s]
  have "decided pc a reply now t w2 ?w'"
    using ds t by (simp add: decided_def q setTask_def outcome_def split: if_splits)
  with r show ?thesis by (intro exI [of _ ?w'] conjI)
qed

lemma direct_decided:
  assumes free: "findRunningRefresh (runningCredentialsRefreshes w)
                   (connection_id (connection a)) (provider_config_key (connection a)) = None"
    and i: "\<not> (\<not> instantRefresh a \<and> shouldIntrospectToken pc (provider a))"
  shows "decided pc a reply now (length (tasks w)) w (refreshOauth2CredentialsIfNeeded pc a now w)"
proof -
  obtain st w1 where d: "decide pc a (instantRefresh a) now w = (st, w1)" by force
  let ?w' = "w1\<lparr>tasks := tasks w1 @ [\<lparr>at = st, args = a\<rparr>]\<rparr>"
  have c: "refreshOauth2CredentialsIfNeeded pc a now w = ?w'"
    using i free by (auto simp: refreshOauth2CredentialsIfNeeded_def d)
  have s: "spec_refreshes pc a reply now
             = (case credentials (connection a) of
                  CredOAuth2 creds \<Rightarrow>
                    truthy (refresh_token creds)
                    \<and> (instantRefresh a \<or> (case expires_at creds of None \<Rightarrow> False
                                    | Some d \<Rightarrow> isTokenExpired now d (bufferOf a)))
                | _ \<Rightarrow> False)"
    using i
    by (auto simp: spec_refreshes_def spec_stale_def split: AuthCredentials.splits sum.splits)
  have q: "spec_result pc a reply = Inr (credentials (connection a))"
    using i by (auto simp: spec_result_def split: sum.splits)
  note ds = decide_cases [OF d, folded s]
  have "decided pc a reply now (length (tasks w)) w ?w'"
    using ds by (simp add: decided_def q outcome_def split: if_splits)
  then show ?thesis by (simp only: c)
qed

text \<open>
  Claim C3, as amended. A call that finds no refresh registered for the connection's key
  runs to its decision at once, unless no instant refresh is requested and the provider
  needs introspection: then it awaits the introspection, and decides when that settles,
  whatever has happened in between. The decision sends one refresh request if the
  introspection has not thrown and the credential has a truthy refresh token and an
  instant refresh is requested, or the introspection reports the token expired, or the
  expiry is known and within the buffer; and none otherwise: then the caller is handed
  the stored credentials (or is thrown the error of the introspection) and the promises,
  the table and the registry are untouched. The buffer is the template's, and 900
  seconds when the template has none or has 0.
\<close>

theorem C3_refresh_iff_stale:
  assumes free: "findRunningRefresh (runningCredentialsRefreshes w)
                   (connection_id (connection a)) (provider_config_key (connection a)) = None"
  shows "step h pc w (Call a now) = Some (refreshOauth2CredentialsIfNeeded pc a now w)
       \<and> (if \<not> instantRefresh a \<and> shouldIntrospectToken pc (provider a)
          then refreshOauth2CredentialsIfNeeded pc a now w
                 = w\<lparr>tasks := tasks w @ [\<lparr>at = AwaitIntrospect, args = a\<rparr>],
                     trace := trace w @ [IntrospectCall (length (tasks w))]\<rparr>
               \<and> (\<forall>w2 t later.
                     t < length (tasks w2) \<longrightarrow>
                     tasks w2 ! t = \<lparr>at = AwaitIntrospect, args = a\<rparr> \<longrightarrow>
                     (\<exists>w'. step h pc w2 (IntrospectSettled t reply later) = Some w'
                          \<and> decided pc a reply later t w2 w'))
          else decided pc a reply now (length (tasks w)) w
                 (refreshOauth2CredentialsIfNeeded pc a now w))
       \<and> bufferOf a = (case token_expiration_buffer a of
                         None \<Rightarrow> 900 | Some b \<Rightarrow> if b = 0 then 900 else b)"
proof (cases "\<not> instantRefresh a \<and> shouldIntrospectToken pc (provider a)")
  case True
  have c: "refreshOauth2CredentialsIfNeeded pc a now w
                 = w\<lparr>tasks := tasks w @ [\<lparr>at = AwaitIntrospect, args = a\<rparr>],
                     trace := trace w @ [IntrospectCall (length (tasks w))]\<rparr>"
    using True free by (simp add: refreshOauth2CredentialsIfNeeded_def)
  have l: "\<forall>w2 t later.
                     t < length (tasks w2) \<longrightarrow>
                     tasks w2 ! t = \<lparr>at = AwaitIntrospect, args = a\<rparr> \<longrightarrow>
                     (\<exists>w'. step h pc w2 (IntrospectSettled t reply later) = Some w'
                          \<and> decided pc a reply later t w2 w')"
    using introspection_decided [OF _ _ True] by blast
  show ?thesis
    unfolding if_P [OF True]
    by (intro conjI) (simp, rule c, rule l, rule bufferOf_default)
next
  case False
  show ?thesis
    unfolding if_not_P [OF False]
    by (intro conjI) (simp, rule direct_decided [OF free False], rule bufferOf_default)
qed

text \<open>The connection without expiry is not refreshed by a call that does not force it.\<close>

theorem C3_refresh_iff_stale_witness:
  "outboundCalls (refreshOauth2CredentialsIfNeeded sampleProviders
       (ask noExpiryConnection None False) 1000 (start [noExpiryConnection])) = 0
   \<and> outcome (refreshOauth2CredentialsIfNeeded sampleProviders
       (ask noExpiryConnection None False) 1000 (start [noExpiryConnection])) 0
       = Some (Inr (CredOAuth2 (token ''a1'' ''r1'' None)))"
proof -
  let ?a = "ask noExpiryConnection None False"
  let ?w = "start [noExpiryConnection]"
  have f: "findRunningRefresh (runningCredentialsRefreshes ?w)
             (connection_id (connection ?a)) (provider_config_key (connection ?a)) = None"
    by (simp add: start_def findRunningRefresh_def)
  have i: "\<not> (\<not> instantRefresh ?a \<and> shouldIntrospectToken sampleProviders (provider ?a))"
    by (simp add: sample_defs)
  have n: "\<not> spec_refreshes sampleProviders ?a (Inr False) 1000"
    by (simp add: spec_refreshes_def spec_stale_def sample_defs noExpiryConnection_def)
  have q: "spec_result sampleProviders ?a (Inr False) = Inr (CredOAuth2 (token ''a1'' ''r1'' None))"
    by (simp add: spec_result_def sample_defs noExpiryConnection_def)
  have z: "outboundCalls ?w = 0" "length (tasks ?w) = 0"
    by (simp_all add: outboundCalls_def start_def)
  from C3_refresh_iff_stale [OF f, where h = sampleHelpers and pc = sampleProviders
                                     and now = 1000 and reply = "Inr False"]
  have "decided sampleProviders ?a (Inr False) 1000 (length (tasks ?w)) ?w
          (refreshOauth2CredentialsIfNeeded sampleProviders ?a 1000 ?w)"
    unfolding if_not_P [OF i] by blast
  then show ?thesis
    unfolding decided_def z q using n by simp
qed

end
